theory Spec2Isabelle
  imports Main
begin

section \<open>JavaScript values\<close>

text \<open>
  A JavaScript number. \<open>JInt i\<close> is an integer-valued number (\<open>-0\<close> is \<open>JInt 0\<close>: both are
  falsy and both print as \<open>0\<close>). \<open>JFrac neg ip fd\<close> is a finite number that is not an integer:
  \<open>neg\<close> is its sign, \<open>ip\<close> the integer part of its magnitude and \<open>fd\<close> the digits that
  \<open>toString(16)\<close> prints after the radix point (for \<open>0.5\<close>: \<open>JFrac False 0 ''8''\<close>).
  \<open>JInf neg\<close> is \<open>Infinity\<close> or \<open>-Infinity\<close>.
\<close>

datatype jsnumber = JInt int | JFrac bool nat string | JNaN | JInf bool

text \<open>A config field documented as \<open>number|string\<close>.\<close>

datatype numeric = NumberV jsnumber | StringV string

type_synonym bytes = "nat list"

datatype error =
    Error string  \<comment> \<open>\<open>throw new Error(msg)\<close> in the repository's own code\<close>
  | LibraryError  \<comment> \<open>any exception thrown inside \<open>@ethereumjs\<close>\<close>

subsection \<open>Hexadecimal strings\<close>

definition isHexChar :: "char \<Rightarrow> bool" where
  "isHexChar c = (let n = (of_char c :: nat) in
     (48 \<le> n \<and> n \<le> 57) \<or> (65 \<le> n \<and> n \<le> 70) \<or> (97 \<le> n \<and> n \<le> 102))"

text \<open>\<open>utils.ts\<close>: the regular expression \<open>/^0x[0-9A-Fa-f]*$/\<close>.\<close>

definition isValidHex :: "string \<Rightarrow> bool" where
  "isValidHex s = (take 2 s = ''0x'' \<and> list_all isHexChar (drop 2 s))"

definition hexChar :: "nat \<Rightarrow> char" where
  "hexChar d = ''0123456789abcdef'' ! d"

definition hexVal :: "char \<Rightarrow> nat" where
  "hexVal c = (let n = (of_char c :: nat) in
     if n \<le> 57 then n - 48 else if n \<le> 70 then n - 55 else n - 87)"

text \<open>\<open>toString(16)\<close> of a non-negative integer (a number or a BigInt).\<close>

fun toString16 :: "nat \<Rightarrow> string" where
  "toString16 n = (if n < 16 then [hexChar n] else toString16 (n div 16) @ [hexChar (n mod 16)])"

declare toString16.simps [simp del]

text \<open>\<open>Number.prototype.toString(16)\<close>.\<close>

definition number_toString16 :: "jsnumber \<Rightarrow> string" where
  "number_toString16 x = (case x of
      JInt i \<Rightarrow> (if i < 0 then ''-'' @ toString16 (nat (- i)) else toString16 (nat i))
    | JFrac neg ip fd \<Rightarrow> (if neg then ''-'' else []) @ toString16 ip @ ''.'' @ fd
    | JNaN \<Rightarrow> ''NaN''
    | JInf neg \<Rightarrow> (if neg then ''-Infinity'' else ''Infinity''))"

text \<open>Truthiness, as \<open>!x\<close> and \<open>x && ...\<close> and \<open>x || ...\<close> test it.\<close>

definition truthy_number :: "jsnumber \<Rightarrow> bool" where
  "truthy_number x = (x \<noteq> JInt 0 \<and> x \<noteq> JNaN)"

definition truthy_numeric :: "numeric option \<Rightarrow> bool" where
  "truthy_numeric x = (case x of None \<Rightarrow> False
     | Some (NumberV n) \<Rightarrow> truthy_number n
     | Some (StringV s) \<Rightarrow> s \<noteq> [])"

definition truthy_string :: "string option \<Rightarrow> bool" where
  "truthy_string x = (case x of None \<Rightarrow> False | Some s \<Rightarrow> s \<noteq> [])"

text \<open>\<open>Number(b)\<close> of a non-negative BigInt \<open>b\<close>: the nearest double, ties to even.\<close>

fun bitlen :: "nat \<Rightarrow> nat" where
  "bitlen n = (if n = 0 then 0 else Suc (bitlen (n div 2)))"

declare bitlen.simps [simp del]

definition Number :: "nat \<Rightarrow> jsnumber" where
  "Number n = (if n < 2 ^ 53 then JInt (int n)
     else let e = bitlen n - 53; q = n div 2 ^ e; rest = n mod 2 ^ e; half = 2 ^ (e - 1);
              m = (if half < rest \<or> (rest = half \<and> odd q) then q + 1 else q)
          in if 2 ^ 1024 \<le> m * 2 ^ e then JInf False else JInt (int (m * 2 ^ e)))"

subsection \<open>Buffers\<close>

text \<open>\<open>Buffer.from(s, 'hex')\<close> on hexadecimal digits: two digits a byte, an odd last digit dropped.\<close>

fun hexToBytes :: "string \<Rightarrow> bytes" where
  "hexToBytes (a # b # rest) = (16 * hexVal a + hexVal b) # hexToBytes rest"
| "hexToBytes _ = []"

text \<open>\<open>buf.toString('hex')\<close>.\<close>

definition bytesToHex :: "bytes \<Rightarrow> string" where
  "bytesToHex bs = concat (map (\<lambda>b. [hexChar (b div 16), hexChar (b mod 16)]) bs)"

text \<open>
  Modelled from the spec: the helpers of \<open>@ethereumjs/util\<close>, a dependency that is not part
  of the sources. \<open>toBuffer\<close> accepts a \<open>0x\<close>-prefixed hex string only and pads an odd number of
  digits with a leading zero; \<open>bufferToBigInt\<close> reads a big-endian integer (the empty buffer is
  zero); \<open>bigIntToUnpaddedBuffer\<close> is the minimal big-endian byte sequence (empty for zero).
\<close>

definition padToEven :: "string \<Rightarrow> string" where
  "padToEven s = (if odd (length s) then CHR ''0'' # s else s)"

definition toBuffer :: "string \<Rightarrow> bytes option" where
  "toBuffer s = (if isValidHex s then Some (hexToBytes (padToEven (drop 2 s))) else None)"

definition bufferToBigInt :: "bytes \<Rightarrow> nat" where
  "bufferToBigInt bs = foldl (\<lambda>acc b. 256 * acc + b) 0 bs"

fun bigIntToUnpaddedBuffer :: "nat \<Rightarrow> bytes" where
  "bigIntToUnpaddedBuffer n =
     (if n = 0 then [] else bigIntToUnpaddedBuffer (n div 256) @ [n mod 256])"

declare bigIntToUnpaddedBuffer.simps [simp del]

section \<open>RLP codec\<close>

text \<open>
  Modelled from the spec: the recursive-length-prefix codec of \<open>@ethereumjs/rlp\<close>, a dependency
  that is not part of the sources. An item is a byte sequence or a list of items. A single
  byte below \<open>0x80\<close> encodes as itself; any other byte sequence as \<open>0x80 + length\<close> (or, from
  56 bytes on, \<open>0xb7 +\<close> the length of the length, then the length) followed by the bytes; a
  list the same way from \<open>0xc0\<close> and \<open>0xf7\<close> over the concatenation of its encoded items.
  Decoding fails on trailing bytes, on truncated input and on non-minimal encodings.
\<close>

datatype rlp = RBytes bytes | RList "rlp list"

definition encodeLength :: "nat \<Rightarrow> nat \<Rightarrow> bytes" where
  "encodeLength len offset =
     (if len < 56 then [len + offset]
      else let hexLength = bigIntToUnpaddedBuffer len
           in (offset + 55 + length hexLength) # hexLength)"

fun rlp_encode :: "rlp \<Rightarrow> bytes" where
  "rlp_encode (RBytes bs) =
     (if length bs = 1 \<and> hd bs < 128 then bs else encodeLength (length bs) 128 @ bs)"
| "rlp_encode (RList xs) =
     (let output = concat (map rlp_encode xs)
      in encodeLength (length output) 192 @ output)"

datatype rlp_kind = KBytes | KList

text \<open>
  The prefix of the first item of a non-empty input: whether it is a byte sequence or a list,
  where its payload starts and how long the payload is. \<open>None\<close> is a thrown error.
\<close>

definition rlp_header :: "bytes \<Rightarrow> (rlp_kind \<times> nat \<times> nat) option" where
  "rlp_header input = (case input of
      [] \<Rightarrow> None
    | firstByte # rest \<Rightarrow>
        if firstByte \<le> 127 then Some (KBytes, 0, 1)
        else if firstByte \<le> 183 then
          (let len = firstByte - 128
           in if length rest < len then None
              else if len = 1 \<and> hd rest < 128 then None
              else Some (KBytes, 1, len))
        else if firstByte \<le> 191 then
          (let llength = firstByte - 183
           in if length rest < llength then None
              else let len = bufferToBigInt (take llength rest)
                   in if hd rest = 0 then None
                      else if len \<le> 55 then None
                      else if length rest < llength + len then None
                      else Some (KBytes, 1 + llength, len))
        else if firstByte \<le> 247 then
          (let len = firstByte - 192
           in if length rest < len then None else Some (KList, 1, len))
        else
          (let llength = firstByte - 247
           in if length rest < llength then None
              else let len = bufferToBigInt (take llength rest)
                   in if hd rest = 0 then None
                      else if len < 56 then None
                      else if length rest < llength + len then None
                      else Some (KList, 1 + llength, len)))"

text \<open>The items of a list payload, decoded one after the other until the payload is used up.\<close>

function rlp_items :: "bytes \<Rightarrow> rlp list option" where
  "rlp_items input =
     (if input = [] then Some []
      else case rlp_header input of
          None \<Rightarrow> None
        | Some (k, off, len) \<Rightarrow>
            (case (case k of
                     KBytes \<Rightarrow> Some (RBytes (take len (drop off input)))
                   | KList \<Rightarrow> map_option RList (rlp_items (take len (drop off input)))) of
               None \<Rightarrow> None
             | Some item \<Rightarrow> map_option ((#) item) (rlp_items (drop (off + len) input))))"
  by pat_completeness auto

termination
proof (relation "measure length", goal_cases)
  case 1
  show ?case by simp
next
  case (2 input x2 k y off len)
  then have "rlp_header input = Some (KList, off, len)" by simp
  then have "0 < off" "off + len \<le> length input"
    by (auto simp: rlp_header_def Let_def split: list.splits if_splits)
  then show ?case by simp
next
  case (3 input x2 k y off len)
  then have "rlp_header input = Some (k, off, len)" by simp
  then have "0 < off + len" "off + len \<le> length input"
    by (auto simp: rlp_header_def Let_def split: list.splits if_splits)
  with 3(1) show ?case by simp
qed

declare rlp_items.simps [simp del]

text \<open>The first item of the input and the bytes after it.\<close>

definition rlp_decode1 :: "bytes \<Rightarrow> (rlp \<times> bytes) option" where
  "rlp_decode1 input = (case rlp_header input of
      None \<Rightarrow> None
    | Some (k, off, len) \<Rightarrow>
        (case k of
           KBytes \<Rightarrow> Some (RBytes (take len (drop off input)), drop (off + len) input)
         | KList \<Rightarrow> map_option (\<lambda>xs. (RList xs, drop (off + len) input))
                      (rlp_items (take len (drop off input)))))"

definition rlp_decode :: "bytes \<Rightarrow> rlp option" where
  "rlp_decode input =
     (if input = [] then Some (RBytes [])
      else case rlp_decode1 input of
          Some (item, []) \<Rightarrow> Some item
        | _ \<Rightarrow> None)"

section \<open>Legacy transactions\<close>

text \<open>
  Modelled from the spec: the legacy \<open>Transaction\<close> class of \<open>@ethereumjs/tx\<close>, a dependency
  that is not part of the sources. A transaction has the nine fields nonce, gasPrice, gasLimit,
  to, value, data, v, r, s; numeric fields are non-negative integers, \<open>to\<close> is absent for a
  contract creation, and v, r, s are absent when their byte sequence is empty. The codec puts
  no ceiling on the length of the data (spec, section 5); no limit that depends on a chain
  configuration is modelled.
\<close>

record Transaction =
  tx_nonce :: nat
  tx_gasPrice :: nat
  tx_gasLimit :: nat
  tx_to :: "bytes option"
  tx_value :: nat
  tx_data :: bytes
  tx_v :: "nat option"
  tx_r :: "nat option"
  tx_s :: "nat option"

definition MAX_INTEGER :: nat where
  "MAX_INTEGER = 2 ^ 256 - 1"

definition MAX_UINT64 :: nat where
  "MAX_UINT64 = 2 ^ 64 - 1"

definition SECP256K1_ORDER :: nat where
  "SECP256K1_ORDER = 0xfffffffffffffffffffffffffffffffebaaedce6af48a03bbfd25e8cd0364141"

definition SECP256K1_ORDER_DIV_2 :: nat where
  "SECP256K1_ORDER_DIV_2 = SECP256K1_ORDER div 2"

definition optBigInt :: "bytes \<Rightarrow> nat option" where
  "optBigInt b = (if b = [] then None else Some (bufferToBigInt b))"

definition withinMax :: "nat option \<Rightarrow> bool" where
  "withinMax x = (case x of None \<Rightarrow> True | Some n \<Rightarrow> n \<le> MAX_INTEGER)"

text \<open>
  The checks of the constructor: value, r, s and gasPrice within 256 bits, gasLimit within 64
  bits, nonce below \<open>2^64 - 1\<close>, gasLimit times gasPrice within 256 bits, and v either 27, 28
  or from 37 on.
\<close>

definition validFields :: "Transaction \<Rightarrow> bool" where
  "validFields t =
     (tx_value t \<le> MAX_INTEGER \<and> withinMax (tx_r t) \<and> withinMax (tx_s t) \<and>
      tx_gasLimit t \<le> MAX_UINT64 \<and> tx_nonce t < MAX_UINT64 \<and>
      tx_gasPrice t * tx_gasLimit t \<le> MAX_INTEGER \<and> tx_gasPrice t \<le> MAX_INTEGER \<and>
      (case tx_v t of None \<Rightarrow> True | Some v \<Rightarrow> v = 27 \<or> v = 28 \<or> 37 \<le> v))"

definition newTransaction ::
  "bytes \<Rightarrow> bytes \<Rightarrow> bytes \<Rightarrow> bytes \<Rightarrow> bytes \<Rightarrow> bytes \<Rightarrow> bytes \<Rightarrow> bytes \<Rightarrow> bytes \<Rightarrow> Transaction option"
  where
  "newTransaction nonce gasPrice gasLimit to val data v r s =
     (let t = \<lparr>tx_nonce = bufferToBigInt nonce, tx_gasPrice = bufferToBigInt gasPrice,
                tx_gasLimit = bufferToBigInt gasLimit,
                tx_to = (if to = [] then None else Some to),
                tx_value = bufferToBigInt val, tx_data = data,
                tx_v = optBigInt v, tx_r = optBigInt r, tx_s = optBigInt s\<rparr>
      in if to \<noteq> [] \<and> length to \<noteq> 20 then None
         else if validFields t then Some t else None)"

text \<open>
  \<open>Transaction.fromTxData\<close> on the hex strings the builders pass; an absent field and the empty
  string are the empty buffer.
\<close>

definition txField :: "string option \<Rightarrow> bytes option" where
  "txField x = (case x of None \<Rightarrow> Some [] | Some s \<Rightarrow> if s = [] then Some [] else toBuffer s)"

record TxData =
  td_nonce :: "string option"
  td_gasPrice :: "string option"
  td_gasLimit :: "string option"
  td_to :: "string option"
  td_value :: "string option"
  td_data :: "string option"
  td_v :: "string option"
  td_r :: "string option"
  td_s :: "string option"

definition fromTxData :: "TxData \<Rightarrow> Transaction option" where
  "fromTxData d =
     (case those (map txField [td_nonce d, td_gasPrice d, td_gasLimit d, td_to d, td_value d,
                               td_data d, td_v d, td_r d, td_s d]) of
        Some [nonce, gasPrice, gasLimit, to, val, data, v, r, s] \<Rightarrow>
          newTransaction nonce gasPrice gasLimit to val data v r s
      | _ \<Rightarrow> None)"

text \<open>The nine fields as byte sequences, numbers in their minimal form.\<close>

definition optUnpadded :: "nat option \<Rightarrow> bytes" where
  "optUnpadded x = (case x of None \<Rightarrow> [] | Some n \<Rightarrow> bigIntToUnpaddedBuffer n)"

definition raw :: "Transaction \<Rightarrow> bytes list" where
  "raw t = [bigIntToUnpaddedBuffer (tx_nonce t), bigIntToUnpaddedBuffer (tx_gasPrice t),
            bigIntToUnpaddedBuffer (tx_gasLimit t),
            (case tx_to t of None \<Rightarrow> [] | Some a \<Rightarrow> a),
            bigIntToUnpaddedBuffer (tx_value t), tx_data t,
            optUnpadded (tx_v t), optUnpadded (tx_r t), optUnpadded (tx_s t)]"

definition serialize :: "Transaction \<Rightarrow> bytes" where
  "serialize t = rlp_encode (RList (map RBytes (raw t)))"

definition getUpfrontCost :: "Transaction \<Rightarrow> nat" where
  "getUpfrontCost t = tx_gasLimit t * tx_gasPrice t + tx_value t"

text \<open>
  \<open>Transaction.fromSerializedTx\<close>: the decoded input is a list of six or nine byte sequences,
  no number among them has a leading zero byte, and the constructor accepts the fields.
\<close>

definition asBuffer :: "rlp \<Rightarrow> bytes option" where
  "asBuffer x = (case x of RBytes b \<Rightarrow> Some b | RList _ \<Rightarrow> None)"

definition noLeadingZero :: "bytes \<Rightarrow> bool" where
  "noLeadingZero b = (case b of [] \<Rightarrow> True | x # _ \<Rightarrow> x \<noteq> 0)"

definition fromValuesArray :: "rlp list \<Rightarrow> Transaction option" where
  "fromValuesArray values =
     (if length values \<noteq> 6 \<and> length values \<noteq> 9 then None
      else case those (map asBuffer values) of
          Some [nonce, gasPrice, gasLimit, to, val, data] \<Rightarrow>
            if list_all noLeadingZero [nonce, gasPrice, gasLimit, val]
            then newTransaction nonce gasPrice gasLimit to val data [] [] []
            else None
        | Some [nonce, gasPrice, gasLimit, to, val, data, v, r, s] \<Rightarrow>
            if list_all noLeadingZero [nonce, gasPrice, gasLimit, val, v, r, s]
            then newTransaction nonce gasPrice gasLimit to val data v r s
            else None
        | _ \<Rightarrow> None)"

definition fromSerializedTx :: "bytes \<Rightarrow> Transaction option" where
  "fromSerializedTx serialized = (case rlp_decode serialized of
      Some (RList values) \<Rightarrow> fromValuesArray values
    | _ \<Rightarrow> None)"

section \<open>Collaborators\<close>

text \<open>
  The hash, the public-key recovery and the checksum casing are taken as parameters: their
  code is not part of the sources and no property below depends on what they compute.
  \<open>ecrecover hash v r s chainId\<close> is \<open>None\<close> when the recovery throws.
\<close>

record collaborators =
  isValidChecksumAddress :: "string \<Rightarrow> bool"
  toChecksumAddress :: "string \<Rightarrow> string"
  keccak256 :: "bytes \<Rightarrow> bytes"
  ecrecover :: "bytes \<Rightarrow> nat \<Rightarrow> bytes \<Rightarrow> bytes \<Rightarrow> nat option \<Rightarrow> bytes option"

definition lastBytes :: "nat \<Rightarrow> bytes \<Rightarrow> bytes" where
  "lastBytes n bs = drop (length bs - n) bs"

text \<open>
  Modelled from the spec: the sender of a signed transaction. The signing hash is the hash of
  the encoded unsigned fields (followed by the chain id and two empty fields when v is from 37
  on); an s above half the curve order, an r or s that is zero, an r that is not below the
  curve order, or a failed recovery throws; the address is the low 20 bytes of the hash of the
  64-byte public key.
\<close>

definition getSenderPublicKey :: "collaborators \<Rightarrow> Transaction \<Rightarrow> bytes option" where
  "getSenderPublicKey env t = (case (tx_v t, tx_r t, tx_s t) of
      (Some v, Some r, Some s) \<Rightarrow>
        (let chainId = (if v = 27 \<or> v = 28 then None else Some ((v - 35) div 2));
             message = take 6 (raw t) @
               (case chainId of None \<Rightarrow> [] | Some c \<Rightarrow> [bigIntToUnpaddedBuffer c, [], []]);
             msgHash = keccak256 env (rlp_encode (RList (map RBytes message)))
         in if SECP256K1_ORDER_DIV_2 < s then None
            else if r = 0 \<or> SECP256K1_ORDER \<le> r \<or> s = 0 then None
            else ecrecover env msgHash v (bigIntToUnpaddedBuffer r) (bigIntToUnpaddedBuffer s)
                   chainId)
    | _ \<Rightarrow> None)"

definition getSenderAddress :: "collaborators \<Rightarrow> Transaction \<Rightarrow> bytes option" where
  "getSenderAddress env t = (case getSenderPublicKey env t of
      None \<Rightarrow> None
    | Some pubKey \<Rightarrow>
        if length pubKey \<noteq> 64 then None
        else let a = lastBytes 20 (keccak256 env pubKey)
             in if length a \<noteq> 20 then None else Some a)"

definition addressToString :: "bytes \<Rightarrow> string" where
  "addressToString a = ''0x'' @ bytesToHex a"

text \<open>
  Modelled from the spec: the address of a created contract, the low 20 bytes of the hash of
  the encoded pair of sender and nonce (a zero nonce is the empty byte sequence).
\<close>

definition generateAddress :: "collaborators \<Rightarrow> bytes \<Rightarrow> bytes \<Rightarrow> bytes" where
  "generateAddress env from nonce =
     lastBytes 20 (keccak256 env (rlp_encode
       (RList [RBytes from, RBytes (if bufferToBigInt nonce = 0 then [] else nonce)])))"

section \<open>The builders and the parser\<close>

record TransactionConfig =
  tc_gasLimit :: "numeric option"
  tc_gasPrice :: "numeric option"
  tc_to :: "string option"
  tc_data :: "string option"
  tc_value :: "numeric option"
  tc_r :: "string option"

record TransactionResult =
  tr_rawTx :: string
  tr_senderAddress :: string
  tr_upfrontCost :: jsnumber
  tr_r :: string
  tr_s :: string
  tr_v :: string

record DeploymentConfig =
  dc_gasLimit :: "numeric option"
  dc_gasPrice :: "numeric option"
  dc_bytecode :: "string option"
  dc_value :: "numeric option"
  dc_r :: "string option"

record DeploymentResult =
  dr_rawTx :: string
  dr_deployerAddress :: string
  dr_contractAddress :: string
  dr_upfrontCost :: jsnumber
  dr_r :: string
  dr_s :: string
  dr_v :: string

record RecoveredTransactionResult =
  rt_nonce :: jsnumber
  rt_gasPrice :: jsnumber
  rt_gasLimit :: jsnumber
  rt_to :: "string option"
  rt_value :: jsnumber
  rt_data :: string
  rt_v :: "string option"
  rt_r :: "string option"
  rt_s :: "string option"

subsection \<open>genRawTransaction.ts\<close>

definition HARDCODED_V :: string where
  "HARDCODED_V = ''0x1b''"

definition HARDCODED_R :: string where
  "HARDCODED_R = ''0x1212121212121212121212121212121212121212121212121212121212121212''"

definition HARDCODED_S :: string where
  "HARDCODED_S = ''0x1212121212121212121212121212121212121212121212121212121212121212''"

text \<open>\<open>typeof x === 'number' ? `0x${x.toString(16)}` : x\<close>\<close>

definition toHexInput :: "numeric \<Rightarrow> string" where
  "toHexInput x = (case x of NumberV n \<Rightarrow> ''0x'' @ number_toString16 n | StringV s \<Rightarrow> s)"

definition MISSING_TRANSACTION_PARAMETERS :: string where
  "MISSING_TRANSACTION_PARAMETERS =
     ''All parameters (gasLimit, gasPrice, to, data, value) are required''"

definition INVALID_TO :: string where
  "INVALID_TO = ''Invalid or non-checksummed address provided for '' @ [CHR 0x22] @ ''to''
     @ [CHR 0x22]"

text \<open>
  The first test guards every \<open>the\<close> below it: past it, gasLimit, gasPrice, to, data and value
  are present. \<open>r\<close> is read only where it is truthy.
\<close>

definition genRawTransaction :: "collaborators \<Rightarrow> TransactionConfig \<Rightarrow> error + TransactionResult"
  where
  "genRawTransaction env config =
     (if \<not> truthy_numeric (tc_gasLimit config) \<or> \<not> truthy_numeric (tc_gasPrice config) \<or>
         \<not> truthy_string (tc_to config) \<or> \<not> truthy_string (tc_data config) \<or>
         tc_value config = None
      then Inl (Error MISSING_TRANSACTION_PARAMETERS)
      else if \<not> isValidChecksumAddress env (the (tc_to config)) then Inl (Error INVALID_TO)
      else if truthy_string (tc_r config) \<and> \<not> isValidHex (the (tc_r config))
      then Inl (Error ''Invalid hex value for customR'')
      else
        let r = (if truthy_string (tc_r config) then the (tc_r config) else HARDCODED_R);
            gasPrice = toHexInput (the (tc_gasPrice config));
            gasLimit = toHexInput (the (tc_gasLimit config));
            val = toHexInput (the (tc_value config))
        in if \<not> isValidHex gasPrice \<or> \<not> isValidHex gasLimit \<or> \<not> isValidHex val \<or>
              \<not> isValidHex (the (tc_data config))
           then Inl (Error ''Invalid hex values in config'')
           else
             let txParams = \<lparr>td_nonce = Some ''0x00'', td_gasPrice = Some gasPrice,
                     td_gasLimit = Some gasLimit, td_to = tc_to config, td_value = Some val,
                     td_data = tc_data config, td_v = Some HARDCODED_V, td_r = Some r,
                     td_s = Some HARDCODED_S\<rparr>
             in case fromTxData txParams of
                 None \<Rightarrow> Inl LibraryError
               | Some tx \<Rightarrow>
                   (let serializedTx = bytesToHex (serialize tx)
                    in case getSenderAddress env tx of
                        None \<Rightarrow> Inl LibraryError
                      | Some sender \<Rightarrow>
                          (let senderAddress0 = addressToString sender;
                               senderAddress =
                                 (if \<not> isValidChecksumAddress env senderAddress0
                                  then toChecksumAddress env senderAddress0
                                  else senderAddress0);
                               upfrontCost = Number (getUpfrontCost tx)
                           in Inr \<lparr>tr_rawTx = ''0x'' @ serializedTx,
                                   tr_senderAddress = senderAddress,
                                   tr_upfrontCost = upfrontCost,
                                   tr_r = the (td_r txParams), tr_s = the (td_s txParams),
                                   tr_v = the (td_v txParams)\<rparr>)))"

subsection \<open>genRawDeployment.ts\<close>

text \<open>The file declares its own three constants.\<close>

definition DEPLOYMENT_HARDCODED_V :: string where
  "DEPLOYMENT_HARDCODED_V = ''0x1b''"

definition DEPLOYMENT_HARDCODED_R :: string where
  "DEPLOYMENT_HARDCODED_R =
     ''0x1212121212121212121212121212121212121212121212121212121212121212''"

definition DEPLOYMENT_HARDCODED_S :: string where
  "DEPLOYMENT_HARDCODED_S =
     ''0x1212121212121212121212121212121212121212121212121212121212121212''"

definition MISSING_DEPLOYMENT_PARAMETERS :: string where
  "MISSING_DEPLOYMENT_PARAMETERS =
     ''All parameters (gasLimit, gasPrice, bytecode, value) are required''"

definition genRawDeployment :: "collaborators \<Rightarrow> DeploymentConfig \<Rightarrow> error + DeploymentResult"
  where
  "genRawDeployment env config =
     (if \<not> truthy_numeric (dc_gasLimit config) \<or> \<not> truthy_numeric (dc_gasPrice config) \<or>
         \<not> truthy_string (dc_bytecode config) \<or> dc_value config = None
      then Inl (Error MISSING_DEPLOYMENT_PARAMETERS)
      else if truthy_string (dc_r config) \<and> \<not> isValidHex (the (dc_r config))
      then Inl (Error ''Invalid hex value for customR'')
      else
        let r = (if truthy_string (dc_r config) then the (dc_r config)
                 else DEPLOYMENT_HARDCODED_R);
            gasPrice = toHexInput (the (dc_gasPrice config));
            gasLimit = toHexInput (the (dc_gasLimit config));
            val = toHexInput (the (dc_value config))
        in if \<not> isValidHex gasPrice \<or> \<not> isValidHex gasLimit \<or> \<not> isValidHex val \<or>
              \<not> isValidHex (the (dc_bytecode config))
           then Inl (Error ''Invalid hex values in config'')
           else
             let txParams = \<lparr>td_nonce = Some ''0x00'', td_gasPrice = Some gasPrice,
                     td_gasLimit = Some gasLimit, td_to = None, td_value = Some val,
                     td_data = dc_bytecode config, td_v = Some DEPLOYMENT_HARDCODED_V,
                     td_r = Some r, td_s = Some DEPLOYMENT_HARDCODED_S\<rparr>
             in case fromTxData txParams of
                 None \<Rightarrow> Inl LibraryError
               | Some tx \<Rightarrow>
                   (let serializedTx = bytesToHex (serialize tx)
                    in case getSenderAddress env tx of
                        None \<Rightarrow> Inl LibraryError
                      | Some sender \<Rightarrow>
                          (let addressRecovered0 = addressToString sender;
                               addressRecovered =
                                 (if \<not> isValidChecksumAddress env addressRecovered0
                                  then toChecksumAddress env addressRecovered0
                                  else addressRecovered0)
                           in case (toBuffer addressRecovered, toBuffer (the (td_nonce txParams))) of
                               (Some addressBuffer, Some nonceBuffer) \<Rightarrow>
                                 (let contractAddress0 = ''0x'' @
                                        bytesToHex (generateAddress env addressBuffer nonceBuffer);
                                      contractAddress =
                                        (if \<not> isValidChecksumAddress env contractAddress0
                                         then toChecksumAddress env contractAddress0
                                         else contractAddress0);
                                      upfrontCost = Number (getUpfrontCost tx)
                                  in Inr \<lparr>dr_rawTx = ''0x'' @ serializedTx,
                                          dr_deployerAddress = addressRecovered,
                                          dr_contractAddress = contractAddress,
                                          dr_upfrontCost = upfrontCost,
                                          dr_r = the (td_r txParams), dr_s = the (td_s txParams),
                                          dr_v = the (td_v txParams)\<rparr>)
                             | _ \<Rightarrow> Inl LibraryError)))"

subsection \<open>recoverRawTransaction.ts\<close>

definition recoverRawTransaction :: "string \<Rightarrow> error + RecoveredTransactionResult" where
  "recoverRawTransaction rawTransaction =
     (if \<not> isValidHex rawTransaction then Inl (Error ''Invalid hex value for rawTransaction'')
      else
        let cleanedRawTx = (if take 2 rawTransaction = ''0x'' then drop 2 rawTransaction
                            else rawTransaction);
            serialized = hexToBytes cleanedRawTx
        in case fromSerializedTx serialized of
            None \<Rightarrow> Inl LibraryError
          | Some tx \<Rightarrow>
              Inr \<lparr>rt_nonce = Number (tx_nonce tx), rt_gasPrice = Number (tx_gasPrice tx),
                   rt_gasLimit = Number (tx_gasLimit tx),
                   rt_to = map_option addressToString (tx_to tx),
                   rt_value = Number (tx_value tx),
                   rt_data = ''0x'' @ bytesToHex (tx_data tx),
                   rt_v = map_option (\<lambda>v. ''0x'' @ toString16 v) (tx_v tx),
                   rt_r = map_option (\<lambda>r. ''0x'' @ toString16 r) (tx_r tx),
                   rt_s = map_option (\<lambda>s. ''0x'' @ toString16 s) (tx_s tx)\<rparr>)"

section \<open>Concrete inputs\<close>

text \<open>
  The configurations of the repository's tests and README, and one fixed choice of the
  collaborators for evaluating the builders on them: only the tests' recipient counts as
  checksummed, the casing leaves a string as it is, every hash is 32 zero bytes and every
  recovery gives 64 zero bytes. The theorems below hold for all collaborators; this choice
  only instantiates them.
\<close>

definition example_collaborators :: collaborators where
  "example_collaborators =
     \<lparr>isValidChecksumAddress = (\<lambda>s. s = ''0x742d35Cc6634C0532925a3b844Bc454e4438f44e''),
      toChecksumAddress = (\<lambda>s. s),
      keccak256 = (\<lambda>_. [0,0,0,0,0,0,0,0,0,0,0,0,0,0,0,0,0,0,0,0,0,0,0,0,0,0,0,0,0,0,0,0]),
      ecrecover = (\<lambda>_ _ _ _ _. Some
        [0,0,0,0,0,0,0,0,0,0,0,0,0,0,0,0,0,0,0,0,0,0,0,0,0,0,0,0,0,0,0,0,
         0,0,0,0,0,0,0,0,0,0,0,0,0,0,0,0,0,0,0,0,0,0,0,0,0,0,0,0,0,0,0,0])\<rparr>"

definition validConfig :: TransactionConfig where
  "validConfig = \<lparr>tc_gasLimit = Some (NumberV (JInt 100000)),
     tc_gasPrice = Some (NumberV (JInt 1000000000)),
     tc_to = Some ''0x742d35Cc6634C0532925a3b844Bc454e4438f44e'', tc_data = Some ''0x1234'',
     tc_value = Some (NumberV (JInt 0)), tc_r = None\<rparr>"

definition validDeployment :: DeploymentConfig where
  "validDeployment = \<lparr>dc_gasLimit = Some (NumberV (JInt 1000000)),
     dc_gasPrice = Some (NumberV (JInt 100000000000)),
     dc_bytecode = Some ''0x60806040'', dc_value = Some (NumberV (JInt 0)), dc_r = None\<rparr>"

text \<open>
  The tests' config with every number as a hex string, and the tests' config sending one
  ether and one wei.
\<close>

definition hexConfig :: TransactionConfig where
  "hexConfig = \<lparr>tc_gasLimit = Some (StringV ''0x186a0''),
     tc_gasPrice = Some (StringV ''0x3b9aca00''),
     tc_to = Some ''0x742d35Cc6634C0532925a3b844Bc454e4438f44e'', tc_data = Some ''0x1234'',
     tc_value = Some (StringV ''0x0''), tc_r = None\<rparr>"

definition oneEtherAndOneWei :: TransactionConfig where
  "oneEtherAndOneWei = validConfig\<lparr>tc_value := Some (StringV ''0xde0b6b3a7640001'')\<rparr>"

text \<open>
  The raw transaction of the Nick factory, from the parser's tests, and the data the tests
  expect from it.
\<close>

definition nickFactoryRawTx :: string where
  "nickFactoryRawTx =
     ''0xf8a58085174876e800830186a08080b853604580600e600039806000f350fe7fffffffffffffff'' @
     ''ffffffffffffffffffffffffffffffffffffffffffffffffe03601600081602082378035828234f5'' @
     ''8015156039578182fd5b8082525050506014600cf31ba02222222222222222222222222222222222'' @
     ''222222222222222222222222222222a0222222222222222222222222222222222222222222222222'' @
     ''2222222222222222''"

definition nickFactoryData :: string where
  "nickFactoryData =
     ''0x604580600e600039806000f350fe7fffffffffffffffffffffffffffffffffffffffffffffffff'' @
     ''ffffffffffffffe03601600081602082378035828234f58015156039578182fd5b80825250505060'' @
     ''14600cf3''"

text \<open>
  A signed transfer whose signature recovers no key (its s is above half the curve order),
  with the fields of the parser's tests.
\<close>

definition unrecoverableTx :: Transaction where
  "unrecoverableTx =
     \<lparr>tx_nonce = 0, tx_gasPrice = 1000000000, tx_gasLimit = 100000,
      tx_to = Some [0x74, 0x2d, 0x35, 0xcc, 0x66, 0x34, 0xc0, 0x53, 0x29, 0x25,
                    0xa3, 0xb8, 0x44, 0xbc, 0x45, 0x4e, 0x44, 0x38, 0xf4, 0x4e],
      tx_value = 1000000000000000, tx_data = [0x12, 0x34],
      tx_v = Some 27, tx_r = Some 1, tx_s = Some (2 ^ 256 - 1)\<rparr>"

section \<open>Notions for stating the properties\<close>

text \<open>Whether a config field holds a number that is not an integer.\<close>

definition nonInteger :: "numeric option \<Rightarrow> bool" where
  "nonInteger x = (case x of Some (NumberV (JFrac neg ip fd)) \<Rightarrow> True | _ \<Rightarrow> False)"

text \<open>
  The transactions whose serialization parses back to them: the fields pass the
  constructor's checks, v is within 256 bits, \<open>to\<close> is absent or 20 bytes, every byte is below
  256, and v, r, s are absent or not zero. Every transaction object that a builder made and
  that recovered a sender is one of them. The bound on the length of the data is the maximal
  length of a JavaScript string; lists are unbounded in HOL.
\<close>

definition wellFormedTx :: "Transaction \<Rightarrow> bool" where
  "wellFormedTx t =
     (validFields t \<and> withinMax (tx_v t) \<and>
      (case tx_to t of None \<Rightarrow> True | Some a \<Rightarrow> length a = 20 \<and> list_all (\<lambda>b. b < 256) a) \<and>
      list_all (\<lambda>b. b < 256) (tx_data t) \<and> length (tx_data t) < 2 ^ 53 \<and>
      tx_v t \<noteq> Some 0 \<and> tx_r t \<noteq> Some 0 \<and> tx_s t \<noteq> Some 0)"

text \<open>
  The integer the library reads from a \<open>0x\<close>-prefixed hex string, and the integer the
  builders make of a numeric config field.
\<close>

definition hexToBigInt :: "string \<Rightarrow> nat" where
  "hexToBigInt s = bufferToBigInt (hexToBytes (padToEven (drop 2 s)))"

definition numericValue :: "numeric \<Rightarrow> nat" where
  "numericValue x = hexToBigInt (toHexInput x)"

text \<open>The value of a string of hexadecimal digits.\<close>

definition hexToNat :: "string \<Rightarrow> nat" where
  "hexToNat s = foldl (\<lambda>acc c. 16 * acc + hexVal c) 0 s"

text \<open>
  The canonical spellings: data in lowercase with an even number of digits, and a non-zero
  number in lowercase without a leading zero digit.
\<close>

definition isLowerHexChar :: "char \<Rightarrow> bool" where
  "isLowerHexChar c = (let n = (of_char c :: nat) in
     (48 \<le> n \<and> n \<le> 57) \<or> (97 \<le> n \<and> n \<le> 102))"

definition canonicalData :: "string \<Rightarrow> bool" where
  "canonicalData s =
     (take 2 s = ''0x'' \<and> even (length s) \<and> list_all isLowerHexChar (drop 2 s))"

definition canonicalQuantity :: "string \<Rightarrow> bool" where
  "canonicalQuantity s =
     (take 2 s = ''0x'' \<and> drop 2 s \<noteq> [] \<and> hd (drop 2 s) \<noteq> CHR ''0'' \<and>
      list_all isLowerHexChar (drop 2 s))"

section \<open>What a successful build went through\<close>

lemmas truthy_defs = truthy_numeric_def truthy_number_def truthy_string_def

lemma truthy_numeric_Some: "truthy_numeric x \<Longrightarrow> \<exists>y. x = Some y"
  by (cases x) (auto simp: truthy_numeric_def)

lemma truthy_string_Some: "truthy_string x \<Longrightarrow> \<exists>y. x = Some y \<and> y \<noteq> []"
  by (cases x) (auto simp: truthy_string_def)

lemma genRawTransaction_InrD:
  assumes "genRawTransaction env c = Inr res"
  shows "\<exists>gl gp to d v tx sender.
    tc_gasLimit c = Some gl \<and> tc_gasPrice c = Some gp \<and> tc_to c = Some to \<and> tc_data c = Some d \<and>
    tc_value c = Some v \<and> truthy_numeric (Some gl) \<and> truthy_numeric (Some gp) \<and> to \<noteq> [] \<and> d \<noteq> [] \<and>
    isValidChecksumAddress env to \<and>
    isValidHex (toHexInput gp) \<and> isValidHex (toHexInput gl) \<and> isValidHex (toHexInput v) \<and>
    isValidHex d \<and>
    fromTxData \<lparr>td_nonce = Some ''0x00'', td_gasPrice = Some (toHexInput gp),
       td_gasLimit = Some (toHexInput gl), td_to = Some to, td_value = Some (toHexInput v),
       td_data = Some d, td_v = Some HARDCODED_V,
       td_r = Some (if truthy_string (tc_r c) then the (tc_r c) else HARDCODED_R),
       td_s = Some HARDCODED_S\<rparr> = Some tx \<and>
    getSenderAddress env tx = Some sender \<and>
    (truthy_string (tc_r c) \<longrightarrow> isValidHex (the (tc_r c))) \<and>
    tr_rawTx res = ''0x'' @ bytesToHex (serialize tx) \<and>
    tr_upfrontCost res = Number (getUpfrontCost tx) \<and>
    tr_r res = (if truthy_string (tc_r c) then the (tc_r c) else HARDCODED_R) \<and>
    tr_s res = HARDCODED_S \<and> tr_v res = HARDCODED_V"
proof -
  from assms have t: "truthy_numeric (tc_gasLimit c)" "truthy_numeric (tc_gasPrice c)"
    "truthy_string (tc_to c)" "truthy_string (tc_data c)" "tc_value c \<noteq> None"
    by (auto simp: genRawTransaction_def split: if_splits)
  then obtain gl gp to d v where f: "tc_gasLimit c = Some gl" "tc_gasPrice c = Some gp"
    "tc_to c = Some to" "tc_data c = Some d" "tc_value c = Some v" "to \<noteq> []" "d \<noteq> []"
    by (auto dest!: truthy_numeric_Some truthy_string_Some)
  from assms t f show ?thesis
    by (auto simp: genRawTransaction_def Let_def split: if_splits option.splits)
qed

lemma genRawDeployment_InrD:
  assumes "genRawDeployment env c = Inr res"
  shows "\<exists>gl gp d v tx sender.
    dc_gasLimit c = Some gl \<and> dc_gasPrice c = Some gp \<and> dc_bytecode c = Some d \<and>
    dc_value c = Some v \<and> truthy_numeric (Some gl) \<and> truthy_numeric (Some gp) \<and> d \<noteq> [] \<and>
    isValidHex (toHexInput gp) \<and> isValidHex (toHexInput gl) \<and> isValidHex (toHexInput v) \<and>
    isValidHex d \<and>
    fromTxData \<lparr>td_nonce = Some ''0x00'', td_gasPrice = Some (toHexInput gp),
       td_gasLimit = Some (toHexInput gl), td_to = None, td_value = Some (toHexInput v),
       td_data = Some d, td_v = Some DEPLOYMENT_HARDCODED_V,
       td_r = Some (if truthy_string (dc_r c) then the (dc_r c) else DEPLOYMENT_HARDCODED_R),
       td_s = Some DEPLOYMENT_HARDCODED_S\<rparr> = Some tx \<and>
    getSenderAddress env tx = Some sender \<and>
    (truthy_string (dc_r c) \<longrightarrow> isValidHex (the (dc_r c))) \<and>
    dr_rawTx res = ''0x'' @ bytesToHex (serialize tx) \<and>
    dr_upfrontCost res = Number (getUpfrontCost tx) \<and>
    dr_r res = (if truthy_string (dc_r c) then the (dc_r c) else DEPLOYMENT_HARDCODED_R) \<and>
    dr_s res = DEPLOYMENT_HARDCODED_S \<and> dr_v res = DEPLOYMENT_HARDCODED_V"
proof -
  from assms have t: "truthy_numeric (dc_gasLimit c)" "truthy_numeric (dc_gasPrice c)"
    "truthy_string (dc_bytecode c)" "dc_value c \<noteq> None"
    by (auto simp: genRawDeployment_def split: if_splits)
  then obtain gl gp d v where f: "dc_gasLimit c = Some gl" "dc_gasPrice c = Some gp"
    "dc_bytecode c = Some d" "dc_value c = Some v" "d \<noteq> []"
    by (auto dest!: truthy_numeric_Some truthy_string_Some)
  from assms t f show ?thesis
    by (auto simp: genRawDeployment_def Let_def split: if_splits option.splits prod.splits)
qed

section \<open>Byte sequences, integers and hexadecimal digits\<close>

subsection \<open>Big-endian integers\<close>

lemma bufferToBigInt_snoc: "bufferToBigInt (bs @ [b]) = 256 * bufferToBigInt bs + b"
  by (simp add: bufferToBigInt_def)

lemma bufferToBigInt_unpadded: "bufferToBigInt (bigIntToUnpaddedBuffer n) = n"
proof (induction n rule: bigIntToUnpaddedBuffer.induct)
  case (1 n)
  show ?case
  proof (cases "n = 0")
    case True
    then show ?thesis by (simp add: bigIntToUnpaddedBuffer.simps bufferToBigInt_def)
  next
    case False
    with 1 show ?thesis
      by (subst bigIntToUnpaddedBuffer.simps) (simp add: bufferToBigInt_snoc)
  qed
qed

lemma unpadded_eq_Nil: "bigIntToUnpaddedBuffer n = [] \<longleftrightarrow> n = 0"
  by (subst bigIntToUnpaddedBuffer.simps) simp

lemma unpadded_noLeadingZero: "noLeadingZero (bigIntToUnpaddedBuffer n)"
proof (induction n rule: bigIntToUnpaddedBuffer.induct)
  case (1 n)
  show ?case
  proof (cases "n = 0")
    case True
    then show ?thesis by (simp add: bigIntToUnpaddedBuffer.simps noLeadingZero_def)
  next
    case False
    show ?thesis
    proof (cases "n div 256 = 0")
      case True
      with False have "bigIntToUnpaddedBuffer n = [n]"
        by (subst bigIntToUnpaddedBuffer.simps) (simp add: unpadded_eq_Nil[THEN iffD2] div_eq_0_iff)
      with False show ?thesis by (simp add: noLeadingZero_def)
    next
      case d: False
      then obtain x xs where xs: "bigIntToUnpaddedBuffer (n div 256) = x # xs"
        by (cases "bigIntToUnpaddedBuffer (n div 256)") (simp_all add: unpadded_eq_Nil)
      with 1 False have "x \<noteq> 0" by (simp add: noLeadingZero_def)
      with False xs show ?thesis
        by (subst bigIntToUnpaddedBuffer.simps) (simp add: noLeadingZero_def)
    qed
  qed
qed

lemma unpadded_bytes: "\<forall>b \<in> set (bigIntToUnpaddedBuffer n). b < 256"
proof (induction n rule: bigIntToUnpaddedBuffer.induct)
  case (1 n)
  then show ?case
    by (subst bigIntToUnpaddedBuffer.simps) auto
qed

lemma unpadded_length: "n < 256 ^ k \<Longrightarrow> length (bigIntToUnpaddedBuffer n) \<le> k"
proof (induction k arbitrary: n)
  case 0
  then show ?case by (simp add: unpadded_eq_Nil[THEN iffD2])
next
  case (Suc k)
  show ?case
  proof (cases "n = 0")
    case True
    then show ?thesis by (simp add: unpadded_eq_Nil[THEN iffD2])
  next
    case False
    from Suc.prems have "n div 256 < 256 ^ k"
      by (simp add: less_mult_imp_div_less mult.commute)
    from Suc.IH[OF this] False show ?thesis
      by (subst bigIntToUnpaddedBuffer.simps) simp
  qed
qed

subsection \<open>Hexadecimal digits\<close>

lemma lt16_cases:
  "(d::nat) < 16 \<Longrightarrow> d \<in> {0, 1, 2, 3, 4, 5, 6, 7, 8, 9, 10, 11, 12, 13, 14, 15}"
  by (simp, arith)

lemma hexVal_hexChar: "d < 16 \<Longrightarrow> hexVal (hexChar d) = d"
  using lt16_cases[of d] by (auto simp: hexVal_def hexChar_def)

lemma isHexChar_hexChar: "d < 16 \<Longrightarrow> isHexChar (hexChar d)"
  using lt16_cases[of d] by (auto simp: isHexChar_def hexChar_def)

lemma hexVal_lt16: "isHexChar c \<Longrightarrow> hexVal c < 16"
  by (auto simp: isHexChar_def hexVal_def Let_def)

lemma hexToBytes_bytesToHex: "\<forall>b \<in> set bs. b < 256 \<Longrightarrow> hexToBytes (bytesToHex bs) = bs"
proof (induction bs)
  case Nil
  then show ?case by (simp add: bytesToHex_def)
next
  case (Cons b bs)
  then have "b div 16 < 16" "b mod 16 < 16" by (simp_all add: less_mult_imp_div_less)
  with Cons show ?case
    by (simp add: bytesToHex_def hexVal_hexChar)
qed

lemma list_all_hex_bytesToHex: "\<forall>b \<in> set bs. b < 256 \<Longrightarrow> list_all isHexChar (bytesToHex bs)"
  by (induction bs) (simp_all add: bytesToHex_def isHexChar_hexChar less_mult_imp_div_less)

lemma isValidHex_bytesToHex: "\<forall>b \<in> set bs. b < 256 \<Longrightarrow> isValidHex (''0x'' @ bytesToHex bs)"
  by (simp add: isValidHex_def list_all_hex_bytesToHex)

lemma hexToBytes_bytes: "list_all isHexChar s \<Longrightarrow> \<forall>b \<in> set (hexToBytes s). b < 256"
proof (induction s rule: hexToBytes.induct)
  case (1 a b rest)
  then have "hexVal a < 16" "hexVal b < 16" by (simp_all add: hexVal_lt16)
  with 1 show ?case by auto
qed simp_all

subsection \<open>Decoding what was encoded\<close>

lemma unpadded_length_64:
  assumes "n < 2 ^ 64"
  shows "length (bigIntToUnpaddedBuffer n) \<le> 8"
proof -
  have "(256::nat) ^ 8 = 2 ^ 64" by simp
  with assms unpadded_length[of n 8] show ?thesis by simp
qed

lemma unpadded_hd: "0 < n \<Longrightarrow> bigIntToUnpaddedBuffer n \<noteq> [] \<and> hd (bigIntToUnpaddedBuffer n) \<noteq> 0"
  using unpadded_noLeadingZero[of n] unpadded_eq_Nil[of n]
  by (cases "bigIntToUnpaddedBuffer n") (simp_all add: noLeadingZero_def)

text \<open>The prefix that \<open>encodeLength\<close> writes is read back by \<open>rlp_header\<close>.\<close>

lemma rlp_header_encodeLength_bytes:
  assumes "length payload = len" "len < 2 ^ 64" "\<not> (len = 1 \<and> hd payload < 128)"
  shows "rlp_header (encodeLength len 128 @ payload @ rest) =
           Some (KBytes, length (encodeLength len 128), len)"
proof (cases "len < 56")
  case True
  with assms show ?thesis
    by (cases payload) (auto simp: rlp_header_def encodeLength_def)
next
  case False
  define hl where "hl = bigIntToUnpaddedBuffer len"
  from False have pos: "0 < len" by simp
  from unpadded_length_64[OF assms(2)] unpadded_hd[OF pos]
  have hl: "length hl \<le> 8" "hl \<noteq> []" "hd hl \<noteq> 0" by (simp_all add: hl_def)
  then have hl1: "0 < length hl" by simp
  have big: "bufferToBigInt hl = len" by (simp add: hl_def bufferToBigInt_unpadded)
  have enc: "encodeLength len 128 = (183 + length hl) # hl"
    using False by (simp add: encodeLength_def hl_def Let_def)
  from hl hl1 big False assms(1) show ?thesis
    unfolding enc by (cases hl) (auto simp: rlp_header_def Let_def)
qed

lemma rlp_header_encodeLength_list:
  assumes "length payload = len" "len < 2 ^ 64"
  shows "rlp_header (encodeLength len 192 @ payload @ rest) =
           Some (KList, length (encodeLength len 192), len)"
proof (cases "len < 56")
  case True
  with assms show ?thesis
    by (auto simp: rlp_header_def encodeLength_def)
next
  case False
  define hl where "hl = bigIntToUnpaddedBuffer len"
  from False have pos: "0 < len" by simp
  from unpadded_length_64[OF assms(2)] unpadded_hd[OF pos]
  have hl: "length hl \<le> 8" "hl \<noteq> []" "hd hl \<noteq> 0" by (simp_all add: hl_def)
  then have hl1: "0 < length hl" by simp
  have big: "bufferToBigInt hl = len" by (simp add: hl_def bufferToBigInt_unpadded)
  have enc: "encodeLength len 192 = (247 + length hl) # hl"
    using False by (simp add: encodeLength_def hl_def Let_def)
  from hl hl1 big False assms(1) show ?thesis
    unfolding enc by (cases hl) (auto simp: rlp_header_def Let_def)
qed

lemma rlp_header_encode_bytes:
  assumes "length b < 2 ^ 64"
  shows "\<exists>off. rlp_header (rlp_encode (RBytes b) @ rest) = Some (KBytes, off, length b) \<and>
           length (rlp_encode (RBytes b)) = off + length b \<and>
           take (length b) (drop off (rlp_encode (RBytes b) @ rest)) = b"
proof (cases "length b = 1 \<and> hd b < 128")
  case True
  then obtain x where "b = [x]" "x < 128"
    by (cases b) auto
  then show ?thesis by (simp add: rlp_header_def)
next
  case False
  from rlp_header_encodeLength_bytes[OF refl assms False, of rest] False show ?thesis
    by auto
qed

lemma rlp_encode_bytes_nonempty: "rlp_encode (RBytes b) \<noteq> []"
  by (cases b) (auto simp: encodeLength_def Let_def)

lemma rlp_items_encode:
  "\<forall>b \<in> set bs. length b < 2 ^ 64 \<Longrightarrow>
   rlp_items (concat (map (\<lambda>b. rlp_encode (RBytes b)) bs)) = Some (map RBytes bs)"
proof (induction bs)
  case Nil
  then show ?case by (simp add: rlp_items.simps)
next
  case (Cons b bs)
  define rest where "rest = concat (map (\<lambda>b. rlp_encode (RBytes b)) bs)"
  define e where "e = rlp_encode (RBytes b)"
  from Cons have len: "length b < 2 ^ 64" and IH: "rlp_items rest = Some (map RBytes bs)"
    by (simp_all add: rest_def)
  from rlp_header_encode_bytes[OF len, of rest] obtain off where
    h: "rlp_header (e @ rest) = Some (KBytes, off, length b)"
    and l: "length e = off + length b"
    and t: "take (length b) (drop off (e @ rest)) = b"
    unfolding e_def by blast
  have ne: "e \<noteq> []"
    using rlp_encode_bytes_nonempty by (simp add: e_def)
  have d: "drop (off + length b) (e @ rest) = rest"
    using l by simp
  have "rlp_items (e @ rest) = Some (RBytes b # map RBytes bs)"
    by (subst rlp_items.simps) (simp add: ne h t d IH del: drop_append take_append)
  then show ?case by (simp add: rest_def e_def)
qed

lemma rlp_decode_encode_list:
  assumes "\<forall>b \<in> set bs. length b < 2 ^ 64"
    and "length (concat (map (\<lambda>b. rlp_encode (RBytes b)) bs)) < 2 ^ 64"
  shows "rlp_decode (rlp_encode (RList (map RBytes bs))) = Some (RList (map RBytes bs))"
proof -
  define payload where "payload = concat (map (\<lambda>b. rlp_encode (RBytes b)) bs)"
  define pre where "pre = encodeLength (length payload) 192"
  have enc: "rlp_encode (RList (map RBytes bs)) = pre @ payload"
    by (simp add: payload_def pre_def Let_def comp_def)
  from assms(2) have "length payload < 2 ^ 64" by (simp add: payload_def)
  from rlp_header_encodeLength_list[OF refl this, of "[]"]
  have h: "rlp_header (pre @ payload) = Some (KList, length pre, length payload)"
    by (simp add: pre_def)
  have items: "rlp_items payload = Some (map RBytes bs)"
    using rlp_items_encode[OF assms(1)] by (simp add: payload_def)
  have ne: "pre \<noteq> []"
    by (simp add: pre_def encodeLength_def Let_def)
  have t: "take (length payload) (drop (length pre) (pre @ payload)) = payload"
    and d: "drop (length pre + length payload) (pre @ payload) = []"
    by simp_all
  show ?thesis
    unfolding enc rlp_decode_def rlp_decode1_def
    by (simp add: ne h t d items del: drop_append take_append)
qed

lemma encodeLength_bytes:
  assumes "len < 2 ^ 64" "off \<le> 192"
  shows "\<forall>x \<in> set (encodeLength len off). x < 256"
proof (cases "len < 56")
  case True
  with assms show ?thesis by (simp add: encodeLength_def)
next
  case False
  with unpadded_length_64[OF assms(1)] unpadded_bytes[of len] assms(2) show ?thesis
    by (auto simp: encodeLength_def Let_def)
qed

lemma encodeLength_length: "len < 2 ^ 64 \<Longrightarrow> length (encodeLength len off) \<le> 9"
  using unpadded_length_64[of len] by (simp add: encodeLength_def Let_def)

lemma rlp_encode_bytes_length:
  "length b < 2 ^ 64 \<Longrightarrow> length (rlp_encode (RBytes b)) \<le> length b + 9"
  using encodeLength_length[of "length b" 128] by simp

lemma rlp_encode_bytes_bytes:
  "length b < 2 ^ 64 \<Longrightarrow> \<forall>x \<in> set b. x < 256 \<Longrightarrow> \<forall>x \<in> set (rlp_encode (RBytes b)). x < 256"
  using encodeLength_bytes[of "length b" 128] by auto

lemma rlp_encode_list_bytes:
  assumes "\<forall>b \<in> set bs. length b < 2 ^ 64 \<and> (\<forall>x \<in> set b. x < 256)"
    and "length (concat (map (\<lambda>b. rlp_encode (RBytes b)) bs)) < 2 ^ 64"
  shows "\<forall>x \<in> set (rlp_encode (RList (map RBytes bs))). x < 256"
proof -
  have "\<forall>x \<in> set (concat (map (\<lambda>b. rlp_encode (RBytes b)) bs)). x < 256"
    using assms(1) rlp_encode_bytes_bytes by (auto simp del: rlp_encode.simps)
  with encodeLength_bytes[OF assms(2), of 192] show ?thesis
    by (auto simp: Let_def comp_def simp del: rlp_encode.simps(1))
qed

lemma concat_encode_length:
  assumes "\<forall>b \<in> set bs. length b < 2 ^ 64"
  shows "length (concat (map (\<lambda>b. rlp_encode (RBytes b)) bs)) \<le> sum_list (map length bs) + 9 * length bs"
  using assms
proof (induction bs)
  case Nil
  then show ?case by simp
next
  case (Cons b bs)
  then have "length (rlp_encode (RBytes b)) \<le> length b + 9"
    by (intro rlp_encode_bytes_length) simp
  with Cons show ?case by (simp del: rlp_encode.simps)
qed

subsection \<open>Parsing a serialized transaction\<close>

lemma unpadded_length_le:
  "n \<le> MAX_INTEGER \<Longrightarrow> length (bigIntToUnpaddedBuffer n) \<le> 32"
  "n \<le> MAX_UINT64 \<Longrightarrow> length (bigIntToUnpaddedBuffer n) \<le> 8"
proof -
  have "(256::nat) ^ 32 = 2 ^ 256" "(256::nat) ^ 8 = 2 ^ 64" by simp_all
  then show "n \<le> MAX_INTEGER \<Longrightarrow> length (bigIntToUnpaddedBuffer n) \<le> 32"
    "n \<le> MAX_UINT64 \<Longrightarrow> length (bigIntToUnpaddedBuffer n) \<le> 8"
    using unpadded_length[of n 32] unpadded_length[of n 8]
    by (simp_all add: MAX_INTEGER_def MAX_UINT64_def)
qed

lemma optUnpadded_length: "withinMax x \<Longrightarrow> length (optUnpadded x) \<le> 32"
  by (cases x) (simp_all add: optUnpadded_def withinMax_def unpadded_length_le)

lemma optUnpadded_bytes: "\<forall>b \<in> set (optUnpadded x). b < 256"
  using unpadded_bytes by (cases x) (simp_all add: optUnpadded_def)

lemma optUnpadded_noLeadingZero: "noLeadingZero (optUnpadded x)"
  using unpadded_noLeadingZero by (cases x) (simp_all add: optUnpadded_def noLeadingZero_def)

lemma optBigInt_optUnpadded: "x \<noteq> Some 0 \<Longrightarrow> optBigInt (optUnpadded x) = x"
  by (cases x) (simp_all add: optBigInt_def optUnpadded_def unpadded_eq_Nil bufferToBigInt_unpadded)

lemma raw_fields:
  assumes "wellFormedTx t"
  shows "\<forall>b \<in> set (raw t). length b < 2 ^ 64 \<and> (\<forall>x \<in> set b. x < 256)"
    and "length (concat (map (\<lambda>b. rlp_encode (RBytes b)) (raw t))) < 2 ^ 64"
proof -
  from assms have v: "validFields t" and w: "withinMax (tx_v t)" "withinMax (tx_r t)"
    "withinMax (tx_s t)" and d: "length (tx_data t) < 2 ^ 53" "\<forall>x \<in> set (tx_data t). x < 256"
    by (simp_all add: wellFormedTx_def validFields_def list_all_iff)
  define to where "to = (case tx_to t of None \<Rightarrow> [] | Some a \<Rightarrow> a)"
  from assms have to: "length to \<le> 20" "\<forall>x \<in> set to. x < 256"
    by (auto simp: wellFormedTx_def to_def list_all_iff split: option.splits)
  from v have n: "length (bigIntToUnpaddedBuffer (tx_nonce t)) \<le> 8"
    "length (bigIntToUnpaddedBuffer (tx_gasPrice t)) \<le> 32"
    "length (bigIntToUnpaddedBuffer (tx_gasLimit t)) \<le> 8"
    "length (bigIntToUnpaddedBuffer (tx_value t)) \<le> 32"
    by (simp_all add: validFields_def unpadded_length_le)
  note o = optUnpadded_length[OF w(1)] optUnpadded_length[OF w(2)] optUnpadded_length[OF w(3)]
  have r: "raw t = [bigIntToUnpaddedBuffer (tx_nonce t), bigIntToUnpaddedBuffer (tx_gasPrice t),
            bigIntToUnpaddedBuffer (tx_gasLimit t), to,
            bigIntToUnpaddedBuffer (tx_value t), tx_data t,
            optUnpadded (tx_v t), optUnpadded (tx_r t), optUnpadded (tx_s t)]"
    by (simp add: raw_def to_def)
  have big: "(2::nat) ^ 53 < 2 ^ 64" by simp
  show a: "\<forall>b \<in> set (raw t). length b < 2 ^ 64 \<and> (\<forall>x \<in> set b. x < 256)"
    unfolding r using n o to d unpadded_bytes optUnpadded_bytes by auto
  then have "\<forall>b \<in> set (raw t). length b < 2 ^ 64" by blast
  from concat_encode_length[OF this]
  have "length (concat (map (\<lambda>b. rlp_encode (RBytes b)) (raw t)))
      \<le> sum_list (map length (raw t)) + 9 * length (raw t)" .
  also have "\<dots> \<le> length (tx_data t) + 277"
    unfolding r using n o to by simp
  also have "\<dots> < 2 ^ 64" using d(1) by simp
  finally show "length (concat (map (\<lambda>b. rlp_encode (RBytes b)) (raw t))) < 2 ^ 64" .
qed

lemma serialize_bytes: "wellFormedTx t \<Longrightarrow> \<forall>x \<in> set (serialize t). x < 256"
  unfolding serialize_def using raw_fields[of t] by (intro rlp_encode_list_bytes) auto

lemma rlp_decode_serialize:
  "wellFormedTx t \<Longrightarrow> rlp_decode (serialize t) = Some (RList (map RBytes (raw t)))"
  unfolding serialize_def using raw_fields[of t] by (intro rlp_decode_encode_list) auto

lemma those_asBuffer: "those (map asBuffer (map RBytes bs)) = Some bs"
  by (induction bs) (simp_all add: asBuffer_def)

lemma fromSerializedTx_serialize:
  assumes "wellFormedTx t"
  shows "fromSerializedTx (serialize t) = Some t"
proof -
  from assms have v: "validFields t" and z: "tx_v t \<noteq> Some 0" "tx_r t \<noteq> Some 0" "tx_s t \<noteq> Some 0"
    by (simp_all add: wellFormedTx_def)
  define to where "to = (case tx_to t of None \<Rightarrow> [] | Some a \<Rightarrow> a)"
  from assms have to: "to = [] \<or> length to = 20" "(if to = [] then None else Some to) = tx_to t"
    by (auto simp: wellFormedTx_def to_def split: option.splits)
  have r: "raw t = [bigIntToUnpaddedBuffer (tx_nonce t), bigIntToUnpaddedBuffer (tx_gasPrice t),
            bigIntToUnpaddedBuffer (tx_gasLimit t), to,
            bigIntToUnpaddedBuffer (tx_value t), tx_data t,
            optUnpadded (tx_v t), optUnpadded (tx_r t), optUnpadded (tx_s t)]"
    by (simp add: raw_def to_def)
  have t: "\<lparr>tx_nonce = tx_nonce t, tx_gasPrice = tx_gasPrice t, tx_gasLimit = tx_gasLimit t,
      tx_to = tx_to t, tx_value = tx_value t, tx_data = tx_data t, tx_v = tx_v t,
      tx_r = tx_r t, tx_s = tx_s t\<rparr> = t"
    by simp
  have n: "newTransaction (bigIntToUnpaddedBuffer (tx_nonce t))
      (bigIntToUnpaddedBuffer (tx_gasPrice t)) (bigIntToUnpaddedBuffer (tx_gasLimit t)) to
      (bigIntToUnpaddedBuffer (tx_value t)) (tx_data t)
      (optUnpadded (tx_v t)) (optUnpadded (tx_r t)) (optUnpadded (tx_s t)) = Some t"
    using to v z
    by (auto simp: newTransaction_def bufferToBigInt_unpadded optBigInt_optUnpadded t Let_def)
  have "fromValuesArray (map RBytes (raw t)) = Some t"
    unfolding fromValuesArray_def those_asBuffer
    by (simp add: r n unpadded_noLeadingZero optUnpadded_noLeadingZero)
  with rlp_decode_serialize[OF assms] show ?thesis
    by (simp add: fromSerializedTx_def)
qed

subsection \<open>Hex strings as integers\<close>

lemma foldl_hexToBytes:
  "even (length s) \<Longrightarrow>
   foldl (\<lambda>acc b. 256 * acc + b) a (hexToBytes s) = foldl (\<lambda>acc c. 16 * acc + hexVal c) a s"
proof (induction s arbitrary: a rule: hexToBytes.induct)
  case (1 x y rest)
  then show ?case by (simp add: algebra_simps)
qed simp_all

lemma hexVal_0: "hexVal CHR ''0'' = 0"
  by (simp add: hexVal_def)

lemma bigInt_padToEven: "bufferToBigInt (hexToBytes (padToEven s)) = hexToNat s"
proof (cases "even (length s)")
  case True
  then show ?thesis
    by (simp add: padToEven_def bufferToBigInt_def hexToNat_def foldl_hexToBytes)
next
  case False
  then have "even (length (CHR ''0'' # s))" by simp
  from foldl_hexToBytes[OF this, of 0] False show ?thesis
    by (simp add: padToEven_def bufferToBigInt_def hexToNat_def hexVal_0)
qed

lemma hexToNat_snoc: "hexToNat (s @ [c]) = 16 * hexToNat s + hexVal c"
  by (simp add: hexToNat_def)

lemma hexToNat_toString16: "hexToNat (toString16 n) = n"
proof (induction n rule: toString16.induct)
  case (1 n)
  show ?case
  proof (cases "n < 16")
    case True
    then show ?thesis
      by (subst toString16.simps) (simp add: hexToNat_def hexVal_hexChar)
  next
    case False
    with 1 show ?thesis
      by (subst toString16.simps) (simp add: hexToNat_snoc hexVal_hexChar)
  qed
qed

lemma hexToBigInt_0x: "hexToBigInt (''0x'' @ s) = hexToNat s"
  by (simp add: hexToBigInt_def bigInt_padToEven)

lemma numericValue_int: "0 \<le> i \<Longrightarrow> numericValue (NumberV (JInt i)) = nat i"
  by (simp add: numericValue_def toHexInput_def number_toString16_def hexToBigInt_0x
      hexToNat_toString16 del: append.simps)

lemma toBuffer_valid: "isValidHex s \<Longrightarrow> toBuffer s = Some (hexToBytes (padToEven (drop 2 s)))"
  by (simp add: toBuffer_def)

lemma txField_valid:
  "isValidHex s \<Longrightarrow> txField (Some s) = Some (hexToBytes (padToEven (drop 2 s)))"
  by (auto simp: txField_def toBuffer_def isValidHex_def)

lemma isHexChar_0: "isHexChar CHR ''0''"
  by (simp add: isHexChar_def)

lemma toBuffer_bytes: "toBuffer s = Some bs \<Longrightarrow> \<forall>b \<in> set bs. b < 256"
proof -
  assume a: "toBuffer s = Some bs"
  then have "list_all isHexChar (padToEven (drop 2 s))"
    by (auto simp: toBuffer_def isValidHex_def padToEven_def isHexChar_0 split: if_splits)
  from hexToBytes_bytes[OF this] a show ?thesis
    by (auto simp: toBuffer_def split: if_splits)
qed

lemma hexToBytes_length: "length (hexToBytes s) \<le> length s"
  by (induction s rule: hexToBytes.induct) simp_all

lemma toBuffer_length: "toBuffer s = Some bs \<Longrightarrow> length bs \<le> length s"
proof -
  assume a: "toBuffer s = Some bs"
  then have s: "2 \<le> length s"
    by (cases s; cases "tl s") (auto simp: toBuffer_def isValidHex_def split: if_splits)
  have "length (hexToBytes (padToEven (drop 2 s))) \<le> length (padToEven (drop 2 s))"
    by (rule hexToBytes_length)
  also have "\<dots> \<le> length s" using s by (auto simp: padToEven_def)
  finally show ?thesis using a by (auto simp: toBuffer_def split: if_splits)
qed

section \<open>Evaluating the builders\<close>

lemmas eval_build = truthy_defs
  isValidHex_def isHexChar_def hexVal_def hexChar_def toHexInput_def number_toString16_def toString16.simps
  HARDCODED_R_def HARDCODED_S_def HARDCODED_V_def DEPLOYMENT_HARDCODED_R_def DEPLOYMENT_HARDCODED_S_def
  DEPLOYMENT_HARDCODED_V_def fromTxData_def txField_def toBuffer_def padToEven_def
  newTransaction_def validFields_def withinMax_def optBigInt_def bufferToBigInt_def MAX_INTEGER_def MAX_UINT64_def
  serialize_def raw_def optUnpadded_def bigIntToUnpaddedBuffer.simps encodeLength_def bytesToHex_def
  getSenderAddress_def getSenderPublicKey_def SECP256K1_ORDER_DIV_2_def SECP256K1_ORDER_def lastBytes_def addressToString_def
  getUpfrontCost_def Number_def bitlen.simps generateAddress_def Let_def

lemma validConfig_result:
  "genRawTransaction example_collaborators validConfig = Inr
     \<lparr>tr_rawTx = ''0xf86680843b9aca00830186a094742d35cc6634c0532925a3b844bc454e4438f44e808212341ba01212121212121212121212121212121212121212121212121212121212121212a01212121212121212121212121212121212121212121212121212121212121212'',
      tr_senderAddress = ''0x0000000000000000000000000000000000000000'',
      tr_upfrontCost = JInt 100000000000000,
      tr_r = ''0x1212121212121212121212121212121212121212121212121212121212121212'',
      tr_s = ''0x1212121212121212121212121212121212121212121212121212121212121212'',
      tr_v = ''0x1b''\<rparr>"
  by (simp add: genRawTransaction_def example_collaborators_def validConfig_def eval_build)

lemma validDeployment_result:
  "genRawDeployment example_collaborators validDeployment = Inr
     \<lparr>dr_rawTx = ''0xf8558085174876e800830f4240808084608060401ba01212121212121212121212121212121212121212121212121212121212121212a01212121212121212121212121212121212121212121212121212121212121212'',
      dr_deployerAddress = ''0x0000000000000000000000000000000000000000'',
      dr_contractAddress = ''0x0000000000000000000000000000000000000000'',
      dr_upfrontCost = JInt 100000000000000000,
      dr_r = ''0x1212121212121212121212121212121212121212121212121212121212121212'',
      dr_s = ''0x1212121212121212121212121212121212121212121212121212121212121212'',
      dr_v = ''0x1b''\<rparr>"
  by (simp add: genRawDeployment_def example_collaborators_def validDeployment_def eval_build)

subsection \<open>The transaction behind a successful build\<close>

lemma fromTxData_SomeD:
  assumes "fromTxData \<lparr>td_nonce = Some n, td_gasPrice = Some gp, td_gasLimit = Some gl,
       td_to = to, td_value = Some v, td_data = Some d, td_v = Some sv, td_r = Some sr,
       td_s = Some ss\<rparr> = Some tx"
    and "isValidHex n" "isValidHex gp" "isValidHex gl" "isValidHex v" "isValidHex d"
      "isValidHex sv" "isValidHex sr" "isValidHex ss"
  shows "tx_nonce tx = hexToBigInt n \<and> tx_gasPrice tx = hexToBigInt gp \<and>
    tx_gasLimit tx = hexToBigInt gl \<and> tx_value tx = hexToBigInt v \<and>
    tx_data tx = hexToBytes (padToEven (drop 2 d)) \<and>
    tx_v tx = optBigInt (hexToBytes (padToEven (drop 2 sv))) \<and>
    tx_r tx = optBigInt (hexToBytes (padToEven (drop 2 sr))) \<and>
    tx_s tx = optBigInt (hexToBytes (padToEven (drop 2 ss))) \<and>
    validFields tx \<and>
    (\<exists>toB. txField to = Some toB \<and> tx_to tx = (if toB = [] then None else Some toB) \<and>
       (toB = [] \<or> length toB = 20))"
proof -
  from assms obtain toB where toB: "txField to = Some toB"
    by (cases "txField to") (auto simp: fromTxData_def txField_valid)
  from assms toB
  have "newTransaction (hexToBytes (padToEven (drop 2 n))) (hexToBytes (padToEven (drop 2 gp)))
      (hexToBytes (padToEven (drop 2 gl))) toB (hexToBytes (padToEven (drop 2 v)))
      (hexToBytes (padToEven (drop 2 d))) (hexToBytes (padToEven (drop 2 sv)))
      (hexToBytes (padToEven (drop 2 sr))) (hexToBytes (padToEven (drop 2 ss))) = Some tx"
    by (simp add: fromTxData_def txField_valid)
  then show ?thesis
    using toB
    by (auto simp: newTransaction_def Let_def hexToBigInt_def split: if_splits)
qed

lemma getSenderAddress_SomeD:
  assumes "getSenderAddress env tx = Some a"
  shows "\<exists>v r s. tx_v tx = Some v \<and> tx_r tx = Some r \<and> tx_s tx = Some s \<and> r \<noteq> 0 \<and> s \<noteq> 0 \<and>
    r < SECP256K1_ORDER \<and> s \<le> SECP256K1_ORDER_DIV_2"
  using assms
  by (auto simp: getSenderAddress_def getSenderPublicKey_def Let_def
      split: option.splits if_splits)

lemma hardcoded_valid:
  "isValidHex HARDCODED_R" "isValidHex HARDCODED_S" "isValidHex HARDCODED_V"
  "isValidHex DEPLOYMENT_HARDCODED_R" "isValidHex DEPLOYMENT_HARDCODED_S"
  "isValidHex DEPLOYMENT_HARDCODED_V" "isValidHex ''0x00''"
  by (simp_all add: eval_build)

lemma hardcoded_values:
  "optBigInt (hexToBytes (padToEven (drop 2 HARDCODED_V))) = Some 27"
  "optBigInt (hexToBytes (padToEven (drop 2 DEPLOYMENT_HARDCODED_V))) = Some 27"
  "hexToBigInt ''0x00'' = 0"
  by (simp_all add: eval_build hexToBigInt_def)

text \<open>
  The transaction object of a successful \<open>genRawTransaction\<close>: well formed, with nonce 0, the
  integers of the config's numeric fields, the bytes of its data and recipient, v = 27, and
  the integers of the r and s that the result reports.
\<close>

lemma genRawTransaction_tx:
  assumes ok: "genRawTransaction env c = Inr res"
  shows "\<exists>tx. (length (the (tc_data c)) < 2 ^ 53 \<longrightarrow> wellFormedTx tx) \<and> tr_rawTx res = ''0x'' @ bytesToHex (serialize tx) \<and>
    tr_upfrontCost res = Number (getUpfrontCost tx) \<and>
    tx_nonce tx = 0 \<and>
    tx_gasPrice tx = numericValue (the (tc_gasPrice c)) \<and>
    tx_gasLimit tx = numericValue (the (tc_gasLimit c)) \<and>
    tx_value tx = numericValue (the (tc_value c)) \<and>
    tx_data tx = hexToBytes (padToEven (drop 2 (the (tc_data c)))) \<and>
    tx_v tx = Some 27 \<and> tx_r tx = Some (hexToBigInt (tr_r res)) \<and>
    tx_s tx = Some (hexToBigInt (tr_s res))"
proof -
  from genRawTransaction_InrD[OF ok] obtain gl gp to d v tx sender where
    f: "tc_gasLimit c = Some gl" "tc_gasPrice c = Some gp" "tc_to c = Some to"
      "tc_data c = Some d" "tc_value c = Some v" "to \<noteq> []"
    and h: "isValidHex (toHexInput gp)" "isValidHex (toHexInput gl)"
      "isValidHex (toHexInput v)" "isValidHex d"
    and tx: "fromTxData \<lparr>td_nonce = Some ''0x00'', td_gasPrice = Some (toHexInput gp),
       td_gasLimit = Some (toHexInput gl), td_to = Some to, td_value = Some (toHexInput v),
       td_data = Some d, td_v = Some HARDCODED_V,
       td_r = Some (tr_r res), td_s = Some HARDCODED_S\<rparr> = Some tx"
    and sender: "getSenderAddress env tx = Some sender"
    and r: "tr_r res = (if truthy_string (tc_r c) then the (tc_r c) else HARDCODED_R)"
      "truthy_string (tc_r c) \<longrightarrow> isValidHex (the (tc_r c))"
    and res: "tr_rawTx res = ''0x'' @ bytesToHex (serialize tx)"
      "tr_upfrontCost res = Number (getUpfrontCost tx)" "tr_s res = HARDCODED_S"
    by auto
  from r have rv: "isValidHex (tr_r res)" by (simp add: hardcoded_valid)
  note D = fromTxData_SomeD[OF tx hardcoded_valid(7) h(1,2,3,4) hardcoded_valid(3) rv
      hardcoded_valid(2)]
  from D obtain toB where toB: "txField (Some to) = Some toB"
    "tx_to tx = (if toB = [] then None else Some toB)" "toB = [] \<or> length toB = 20"
    by blast
  from toB(1) f(6) have tb: "toBuffer to = Some toB" by (simp add: txField_def)
  from getSenderAddress_SomeD[OF sender] obtain sr ss where
    s: "tx_r tx = Some sr" "tx_s tx = Some ss" "sr \<noteq> 0" "ss \<noteq> 0" "sr < SECP256K1_ORDER"
    by blast
  have datab: "\<forall>b \<in> set (tx_data tx). b < 256"
    using toBuffer_bytes[of d] h(4) D by (simp add: toBuffer_def)
  have datal: "length (tx_data tx) < 2 ^ 53" if "length (the (tc_data c)) < 2 ^ 53"
    using toBuffer_length[of d] h(4) D that f(4) by (simp add: toBuffer_def)
  have rs: "tx_r tx = Some (hexToBigInt (tr_r res))" "tx_s tx = Some (hexToBigInt (tr_s res))"
    using D s by (auto simp: optBigInt_def hexToBigInt_def res(3) split: if_splits)
  have wf: "wellFormedTx tx" if "length (the (tc_data c)) < 2 ^ 53"
    using datal[OF that] D toB(2,3) toBuffer_bytes[OF tb] datab s
    by (auto simp: wellFormedTx_def hardcoded_values withinMax_def MAX_INTEGER_def
        list_all_iff)
  from wf res D rs show ?thesis
    by (auto simp: f numericValue_def hardcoded_values)
qed


lemma genRawDeployment_tx:
  assumes ok: "genRawDeployment env c = Inr res"
  shows "\<exists>tx. dr_upfrontCost res = Number (getUpfrontCost tx) \<and>
    tx_gasPrice tx = numericValue (the (dc_gasPrice c)) \<and>
    tx_gasLimit tx = numericValue (the (dc_gasLimit c)) \<and>
    tx_value tx = numericValue (the (dc_value c))"
proof -
  from genRawDeployment_InrD[OF ok] obtain gl gp d v tx where
    f: "dc_gasLimit c = Some gl" "dc_gasPrice c = Some gp" "dc_bytecode c = Some d"
      "dc_value c = Some v"
    and h: "isValidHex (toHexInput gp)" "isValidHex (toHexInput gl)"
      "isValidHex (toHexInput v)" "isValidHex d"
    and tx: "fromTxData \<lparr>td_nonce = Some ''0x00'', td_gasPrice = Some (toHexInput gp),
       td_gasLimit = Some (toHexInput gl), td_to = None, td_value = Some (toHexInput v),
       td_data = Some d, td_v = Some DEPLOYMENT_HARDCODED_V,
       td_r = Some (dr_r res), td_s = Some DEPLOYMENT_HARDCODED_S\<rparr> = Some tx"
    and r: "dr_r res = (if truthy_string (dc_r c) then the (dc_r c) else DEPLOYMENT_HARDCODED_R)"
      "truthy_string (dc_r c) \<longrightarrow> isValidHex (the (dc_r c))"
    and res: "dr_upfrontCost res = Number (getUpfrontCost tx)"
    by auto
  from r have rv: "isValidHex (dr_r res)" by (simp add: hardcoded_valid)
  note D = fromTxData_SomeD[OF tx hardcoded_valid(7) h(1,2,3,4) hardcoded_valid(6) rv
      hardcoded_valid(5)]
  from res D show ?thesis
    by (auto simp: f numericValue_def)
qed

subsection \<open>Parsing the hex of a serialized transaction\<close>

lemma recoverRawTransaction_serialize:
  assumes "wellFormedTx t"
  shows "recoverRawTransaction (''0x'' @ bytesToHex (serialize t)) =
    Inr \<lparr>rt_nonce = Number (tx_nonce t), rt_gasPrice = Number (tx_gasPrice t),
         rt_gasLimit = Number (tx_gasLimit t),
         rt_to = map_option addressToString (tx_to t),
         rt_value = Number (tx_value t),
         rt_data = ''0x'' @ bytesToHex (tx_data t),
         rt_v = map_option (\<lambda>v. ''0x'' @ toString16 v) (tx_v t),
         rt_r = map_option (\<lambda>r. ''0x'' @ toString16 r) (tx_r t),
         rt_s = map_option (\<lambda>s. ''0x'' @ toString16 s) (tx_s t)\<rparr>"
proof -
  note b = serialize_bytes[OF assms]
  have v: "isValidHex (''0x'' @ bytesToHex (serialize t))"
    by (rule isValidHex_bytesToHex[OF b])
  have h: "hexToBytes (bytesToHex (serialize t)) = serialize t"
    by (rule hexToBytes_bytesToHex[OF b])
  show ?thesis
    unfolding recoverRawTransaction_def
    by (simp add: v h fromSerializedTx_serialize[OF assms] Let_def del: append.simps)
      (simp add: h fromSerializedTx_serialize[OF assms])
qed

lemma Number_exact: "n \<le> 2 ^ 53 \<Longrightarrow> Number n = JInt (int n)"
proof (cases "n < 2 ^ 53")
  case True
  then show ?thesis by (simp add: Number_def)
next
  case False
  assume "n \<le> 2 ^ 53"
  with False have "n = 2 ^ 53" by simp
  then show ?thesis by (simp add: Number_def bitlen.simps Let_def)
qed

section \<open>Required fields\<close>

text \<open>
  C6. \<open>genRawTransaction\<close> fails with the missing-parameters error whenever one of gasLimit,
  gasPrice, to, data, value is absent, and \<open>genRawDeployment\<close> whenever one of gasLimit,
  gasPrice, bytecode, value is absent. The message lists the required fields of the variant,
  and the outcome is the error alone: no result is returned.
\<close>

theorem missing_field_rejected:
  "(tc_gasLimit c = None \<or> tc_gasPrice c = None \<or> tc_to c = None \<or> tc_data c = None \<or>
    tc_value c = None \<longrightarrow>
      genRawTransaction env c =
        Inl (Error ''All parameters (gasLimit, gasPrice, to, data, value) are required'')) \<and>
   (dc_gasLimit d = None \<or> dc_gasPrice d = None \<or> dc_bytecode d = None \<or> dc_value d = None \<longrightarrow>
      genRawDeployment env d =
        Inl (Error ''All parameters (gasLimit, gasPrice, bytecode, value) are required''))"
  by (auto simp: genRawTransaction_def genRawDeployment_def truthy_numeric_def truthy_string_def
      MISSING_TRANSACTION_PARAMETERS_def MISSING_DEPLOYMENT_PARAMETERS_def)

theorem missing_field_rejected_witness:
  "tc_gasLimit (validConfig\<lparr>tc_gasLimit := None\<rparr>) = None \<and>
   genRawTransaction example_collaborators (validConfig\<lparr>tc_gasLimit := None\<rparr>) =
     Inl (Error ''All parameters (gasLimit, gasPrice, to, data, value) are required'') \<and>
   dc_value (validDeployment\<lparr>dc_value := None\<rparr>) = None \<and>
   genRawDeployment example_collaborators (validDeployment\<lparr>dc_value := None\<rparr>) =
     Inl (Error ''All parameters (gasLimit, gasPrice, bytecode, value) are required'')"
  using missing_field_rejected [of "validConfig\<lparr>tc_gasLimit := None\<rparr>" example_collaborators
      "validDeployment\<lparr>dc_value := None\<rparr>"]
  by simp

section \<open>The override of r\<close>

lemma genRawTransaction_not_customR:
  "\<not> truthy_string (tc_r c) \<Longrightarrow>
   genRawTransaction env c \<noteq> Inl (Error ''Invalid hex value for customR'')"
  by (simp add: genRawTransaction_def MISSING_TRANSACTION_PARAMETERS_def INVALID_TO_def Let_def
      split: option.splits)

lemma genRawDeployment_not_customR:
  "\<not> truthy_string (dc_r c) \<Longrightarrow>
   genRawDeployment env c \<noteq> Inl (Error ''Invalid hex value for customR'')"
  by (simp add: genRawDeployment_def MISSING_DEPLOYMENT_PARAMETERS_def Let_def
      split: option.splits prod.splits)

text \<open>
  C10. When the override r is the empty string, neither builder raises the error for an
  invalid r: the empty string is falsy, so the hex test is skipped and the hardcoded r is
  used. The builder behaves as if r were absent, and the r it returns is the hardcoded
  constant, not the empty string supplied.
\<close>

theorem empty_r_falls_back:
  "(tc_r c = Some [] \<longrightarrow>
      genRawTransaction env c \<noteq> Inl (Error ''Invalid hex value for customR'') \<and>
      genRawTransaction env c = genRawTransaction env (c\<lparr>tc_r := None\<rparr>) \<and>
      (\<forall>res. genRawTransaction env c = Inr res \<longrightarrow> tr_r res = HARDCODED_R \<and> tr_r res \<noteq> [])) \<and>
   (dc_r d = Some [] \<longrightarrow>
      genRawDeployment env d \<noteq> Inl (Error ''Invalid hex value for customR'') \<and>
      genRawDeployment env d = genRawDeployment env (d\<lparr>dc_r := None\<rparr>) \<and>
      (\<forall>res. genRawDeployment env d = Inr res \<longrightarrow>
         dr_r res = DEPLOYMENT_HARDCODED_R \<and> dr_r res \<noteq> []))"
proof (intro conjI impI allI)
  assume r: "tc_r c = Some []"
  then show "genRawTransaction env c \<noteq> Inl (Error ''Invalid hex value for customR'')"
    by (intro genRawTransaction_not_customR) (simp add: truthy_string_def)
  from r show "genRawTransaction env c = genRawTransaction env (c\<lparr>tc_r := None\<rparr>)"
    by (simp add: genRawTransaction_def truthy_string_def Let_def)
  fix res assume "genRawTransaction env c = Inr res"
  from genRawTransaction_InrD[OF this] r show "tr_r res = HARDCODED_R"
    by (auto simp: truthy_string_def)
  then show "tr_r res \<noteq> []" by (simp add: HARDCODED_R_def)
next
  assume r: "dc_r d = Some []"
  then show "genRawDeployment env d \<noteq> Inl (Error ''Invalid hex value for customR'')"
    by (intro genRawDeployment_not_customR) (simp add: truthy_string_def)
  from r show "genRawDeployment env d = genRawDeployment env (d\<lparr>dc_r := None\<rparr>)"
    by (simp add: genRawDeployment_def truthy_string_def Let_def)
  fix res assume "genRawDeployment env d = Inr res"
  from genRawDeployment_InrD[OF this] r show "dr_r res = DEPLOYMENT_HARDCODED_R"
    by (auto simp: truthy_string_def)
  then show "dr_r res \<noteq> []" by (simp add: DEPLOYMENT_HARDCODED_R_def)
qed

theorem empty_r_falls_back_witness:
  "tc_r (validConfig\<lparr>tc_r := Some []\<rparr>) = Some [] \<and>
   genRawTransaction example_collaborators (validConfig\<lparr>tc_r := Some []\<rparr>) =
     genRawTransaction example_collaborators validConfig \<and>
   (\<exists>res. genRawTransaction example_collaborators (validConfig\<lparr>tc_r := Some []\<rparr>) = Inr res \<and>
      tr_r res = ''0x1212121212121212121212121212121212121212121212121212121212121212'') \<and>
   dc_r (validDeployment\<lparr>dc_r := Some []\<rparr>) = Some [] \<and>
   genRawDeployment example_collaborators (validDeployment\<lparr>dc_r := Some []\<rparr>) =
     genRawDeployment example_collaborators validDeployment \<and>
   (\<exists>res. genRawDeployment example_collaborators (validDeployment\<lparr>dc_r := Some []\<rparr>) = Inr res \<and>
      dr_r res = ''0x1212121212121212121212121212121212121212121212121212121212121212'')"
proof -
  have a: "validConfig\<lparr>tc_r := Some [], tc_r := None\<rparr> = validConfig"
    by (simp add: validConfig_def)
  have b: "validDeployment\<lparr>dc_r := Some [], dc_r := None\<rparr> = validDeployment"
    by (simp add: validDeployment_def)
  show ?thesis
    using empty_r_falls_back [of "validConfig\<lparr>tc_r := Some []\<rparr>" example_collaborators
        "validDeployment\<lparr>dc_r := Some []\<rparr>"]
    by (simp add: a b validConfig_result validDeployment_result)
qed

section \<open>Fields that are present but falsy\<close>





section \<open>The hardcoded signature\<close>

lemma replicate_32:
  "replicate 32 x = [x,x,x,x,x,x,x,x,x,x,x,x,x,x,x,x,x,x,x,x,x,x,x,x,x,x,x,x,x,x,x,x]"
  by (simp add: numeral_eq_Suc)

lemma hardcoded_bytes:
  "toBuffer HARDCODED_R = Some (replicate 32 18)" "toBuffer HARDCODED_S = Some (replicate 32 18)"
  "toBuffer DEPLOYMENT_HARDCODED_R = Some (replicate 32 18)"
  "toBuffer DEPLOYMENT_HARDCODED_S = Some (replicate 32 18)"
  "map_option bufferToBigInt (toBuffer HARDCODED_V) = Some 27"
  "map_option bufferToBigInt (toBuffer DEPLOYMENT_HARDCODED_V) = Some 27"
  unfolding replicate_32 by (simp_all add: eval_build)

text \<open>
  What a successful build signs with: the transaction object that is serialized into the
  rawTx, and from which the sender is recovered, is the one the library makes of the
  builder's transaction data; its v is 27 and its r and s are the integers of the r and s
  that the result reports.
\<close>

lemma genRawTransaction_signed:
  assumes ok: "genRawTransaction env c = Inr res"
  shows "\<exists>tx sender.
    fromTxData \<lparr>td_nonce = Some ''0x00'',
       td_gasPrice = Some (toHexInput (the (tc_gasPrice c))),
       td_gasLimit = Some (toHexInput (the (tc_gasLimit c))), td_to = tc_to c,
       td_value = Some (toHexInput (the (tc_value c))), td_data = tc_data c,
       td_v = Some (tr_v res), td_r = Some (tr_r res), td_s = Some (tr_s res)\<rparr> = Some tx \<and>
    tr_rawTx res = ''0x'' @ bytesToHex (serialize tx) \<and>
    (length (the (tc_data c)) < 2 ^ 53 \<longrightarrow> wellFormedTx tx) \<and>
    getSenderAddress env tx = Some sender \<and>
    tr_senderAddress res =
      (if \<not> isValidChecksumAddress env (addressToString sender)
       then toChecksumAddress env (addressToString sender) else addressToString sender) \<and>
    tx_v tx = Some 27 \<and> tx_r tx = Some (hexToBigInt (tr_r res)) \<and>
    tx_s tx = Some (hexToBigInt (tr_s res))"
proof -
  from genRawTransaction_InrD[OF ok] obtain gl gp to d v tx sender where
    f: "tc_gasLimit c = Some gl" "tc_gasPrice c = Some gp" "tc_to c = Some to"
      "tc_data c = Some d" "tc_value c = Some v"
    and g: "truthy_numeric (Some gl)" "truthy_numeric (Some gp)" "to \<noteq> []" "d \<noteq> []"
      "isValidChecksumAddress env to"
    and h: "isValidHex (toHexInput gp)" "isValidHex (toHexInput gl)"
      "isValidHex (toHexInput v)" "isValidHex d"
    and tx: "fromTxData \<lparr>td_nonce = Some ''0x00'', td_gasPrice = Some (toHexInput gp),
       td_gasLimit = Some (toHexInput gl), td_to = Some to, td_value = Some (toHexInput v),
       td_data = Some d, td_v = Some HARDCODED_V,
       td_r = Some (if truthy_string (tc_r c) then the (tc_r c) else HARDCODED_R),
       td_s = Some HARDCODED_S\<rparr> = Some tx"
    and sender: "getSenderAddress env tx = Some sender"
    and r: "tr_r res = (if truthy_string (tc_r c) then the (tc_r c) else HARDCODED_R)"
      "truthy_string (tc_r c) \<longrightarrow> isValidHex (the (tc_r c))"
    and res: "tr_rawTx res = ''0x'' @ bytesToHex (serialize tx)" "tr_s res = HARDCODED_S"
      "tr_v res = HARDCODED_V"
    by auto
  have sa: "tr_senderAddress res =
      (if \<not> isValidChecksumAddress env (addressToString sender)
       then toChecksumAddress env (addressToString sender) else addressToString sender)"
  proof -
    have g': "truthy_numeric (Some gl)" "truthy_numeric (Some gp)" "truthy_string (Some to)"
      "truthy_string (Some d)" "isValidChecksumAddress env to"
      using g by (simp_all add: truthy_string_def)
    show ?thesis
    proof (cases "truthy_string (tc_r c)")
      case True
      with r(2) have rv: "isValidHex (the (tc_r c))" by simp
      from ok f g' h tx sender True rv show ?thesis
        by (auto simp: genRawTransaction_def Let_def)
    next
      case False
      from ok f g' h tx sender False show ?thesis
        by (auto simp: genRawTransaction_def Let_def)
    qed
  qed
  from r have rv: "isValidHex (tr_r res)" by (simp add: hardcoded_valid)
  note tx' = tx[folded r(1)]
  note D = fromTxData_SomeD[OF tx' hardcoded_valid(7) h(1,2,3,4) hardcoded_valid(3) rv
      hardcoded_valid(2)]
  from D obtain toB where toB: "txField (Some to) = Some toB"
    "tx_to tx = (if toB = [] then None else Some toB)" "toB = [] \<or> length toB = 20"
    by blast
  from toB(1) g(3) have tb: "toBuffer to = Some toB" by (simp add: txField_def)
  from getSenderAddress_SomeD[OF sender] obtain sr ss where
    s: "tx_r tx = Some sr" "tx_s tx = Some ss" "sr \<noteq> 0" "ss \<noteq> 0"
    by blast
  have datab: "\<forall>b \<in> set (tx_data tx). b < 256"
    using toBuffer_bytes[of d] h(4) D by (simp add: toBuffer_def)
  have datal: "length (tx_data tx) < 2 ^ 53" if "length (the (tc_data c)) < 2 ^ 53"
    using toBuffer_length[of d] h(4) D that f(4) by (simp add: toBuffer_def)
  have rs: "tx_r tx = Some (hexToBigInt (tr_r res))" "tx_s tx = Some (hexToBigInt (tr_s res))"
    using D s by (auto simp: optBigInt_def hexToBigInt_def res(2) split: if_splits)
  have wf: "wellFormedTx tx" if "length (the (tc_data c)) < 2 ^ 53"
    using datal[OF that] D toB(2,3) toBuffer_bytes[OF tb] datab s
    by (auto simp: wellFormedTx_def hardcoded_values withinMax_def MAX_INTEGER_def
        list_all_iff)
  from D have v: "tx_v tx = Some 27" by (simp add: hardcoded_values)
  have td: "fromTxData \<lparr>td_nonce = Some ''0x00'',
       td_gasPrice = Some (toHexInput (the (tc_gasPrice c))),
       td_gasLimit = Some (toHexInput (the (tc_gasLimit c))), td_to = tc_to c,
       td_value = Some (toHexInput (the (tc_value c))), td_data = tc_data c,
       td_v = Some (tr_v res), td_r = Some (tr_r res), td_s = Some (tr_s res)\<rparr> = Some tx"
    using tx' by (simp only: f res(2,3) option.sel)
  from td res(1) wf sender sa v rs show ?thesis by blast
qed


lemma genRawDeployment_signed:
  assumes ok: "genRawDeployment env c = Inr res"
  shows "\<exists>tx sender.
    fromTxData \<lparr>td_nonce = Some ''0x00'',
       td_gasPrice = Some (toHexInput (the (dc_gasPrice c))),
       td_gasLimit = Some (toHexInput (the (dc_gasLimit c))), td_to = None,
       td_value = Some (toHexInput (the (dc_value c))), td_data = dc_bytecode c,
       td_v = Some (dr_v res), td_r = Some (dr_r res), td_s = Some (dr_s res)\<rparr> = Some tx \<and>
    dr_rawTx res = ''0x'' @ bytesToHex (serialize tx) \<and>
    (length (the (dc_bytecode c)) < 2 ^ 53 \<longrightarrow> wellFormedTx tx) \<and>
    getSenderAddress env tx = Some sender \<and>
    dr_deployerAddress res =
      (if \<not> isValidChecksumAddress env (addressToString sender)
       then toChecksumAddress env (addressToString sender) else addressToString sender) \<and>
    tx_to tx = None \<and>
    tx_v tx = Some 27 \<and> tx_r tx = Some (hexToBigInt (dr_r res)) \<and>
    tx_s tx = Some (hexToBigInt (dr_s res))"
proof -
  from genRawDeployment_InrD[OF ok] obtain gl gp d v tx sender where
    f: "dc_gasLimit c = Some gl" "dc_gasPrice c = Some gp"
      "dc_bytecode c = Some d" "dc_value c = Some v"
    and g: "truthy_numeric (Some gl)" "truthy_numeric (Some gp)" "d \<noteq> []"
    and h: "isValidHex (toHexInput gp)" "isValidHex (toHexInput gl)"
      "isValidHex (toHexInput v)" "isValidHex d"
    and tx: "fromTxData \<lparr>td_nonce = Some ''0x00'', td_gasPrice = Some (toHexInput gp),
       td_gasLimit = Some (toHexInput gl), td_to = None, td_value = Some (toHexInput v),
       td_data = Some d, td_v = Some DEPLOYMENT_HARDCODED_V,
       td_r = Some (if truthy_string (dc_r c) then the (dc_r c) else DEPLOYMENT_HARDCODED_R),
       td_s = Some DEPLOYMENT_HARDCODED_S\<rparr> = Some tx"
    and sender: "getSenderAddress env tx = Some sender"
    and r: "dr_r res = (if truthy_string (dc_r c) then the (dc_r c) else DEPLOYMENT_HARDCODED_R)"
      "truthy_string (dc_r c) \<longrightarrow> isValidHex (the (dc_r c))"
    and res: "dr_rawTx res = ''0x'' @ bytesToHex (serialize tx)"
      "dr_s res = DEPLOYMENT_HARDCODED_S" "dr_v res = DEPLOYMENT_HARDCODED_V"
    by auto
  have sa: "dr_deployerAddress res =
      (if \<not> isValidChecksumAddress env (addressToString sender)
       then toChecksumAddress env (addressToString sender) else addressToString sender)"
  proof -
    have g': "truthy_numeric (Some gl)" "truthy_numeric (Some gp)" "truthy_string (Some d)"
      using g by (simp_all add: truthy_string_def)
    show ?thesis
    proof (cases "truthy_string (dc_r c)")
      case True
      with r(2) have rv: "isValidHex (the (dc_r c))" by simp
      from ok f g' h tx sender True rv show ?thesis
        by (auto simp: genRawDeployment_def Let_def split: option.splits)
    next
      case False
      from ok f g' h tx sender False show ?thesis
        by (auto simp: genRawDeployment_def Let_def split: option.splits)
    qed
  qed
  from r have rv: "isValidHex (dr_r res)" by (simp add: hardcoded_valid)
  note tx' = tx[folded r(1)]
  note D = fromTxData_SomeD[OF tx' hardcoded_valid(7) h(1,2,3,4) hardcoded_valid(6) rv
      hardcoded_valid(5)]
  from D have to: "tx_to tx = None" by (auto simp: txField_def)
  from getSenderAddress_SomeD[OF sender] obtain sr ss where
    s: "tx_r tx = Some sr" "tx_s tx = Some ss" "sr \<noteq> 0" "ss \<noteq> 0"
    by blast
  have datab: "\<forall>b \<in> set (tx_data tx). b < 256"
    using toBuffer_bytes[of d] h(4) D by (simp add: toBuffer_def)
  have datal: "length (tx_data tx) < 2 ^ 53" if "length (the (dc_bytecode c)) < 2 ^ 53"
    using toBuffer_length[of d] h(4) D that f(3) by (simp add: toBuffer_def)
  have rs: "tx_r tx = Some (hexToBigInt (dr_r res))" "tx_s tx = Some (hexToBigInt (dr_s res))"
    using D s by (auto simp: optBigInt_def hexToBigInt_def res(2) split: if_splits)
  have wf: "wellFormedTx tx" if "length (the (dc_bytecode c)) < 2 ^ 53"
    using datal[OF that] D to datab s
    by (auto simp: wellFormedTx_def hardcoded_values withinMax_def MAX_INTEGER_def
        list_all_iff)
  from D have v: "tx_v tx = Some 27" by (simp add: hardcoded_values)
  have td: "fromTxData \<lparr>td_nonce = Some ''0x00'',
       td_gasPrice = Some (toHexInput (the (dc_gasPrice c))),
       td_gasLimit = Some (toHexInput (the (dc_gasLimit c))), td_to = None,
       td_value = Some (toHexInput (the (dc_value c))), td_data = dc_bytecode c,
       td_v = Some (dr_v res), td_r = Some (dr_r res), td_s = Some (dr_s res)\<rparr> = Some tx"
    using tx' by (simp only: f res(2,3) option.sel)
  from td res(1) wf sender sa to v rs show ?thesis by blast
qed

text \<open>The constants as integers and as the bytes that are serialized.\<close>

lemma hardcoded_ints:
  "hexToBigInt HARDCODED_R = 0x1212121212121212121212121212121212121212121212121212121212121212"
  "hexToBigInt HARDCODED_S = 0x1212121212121212121212121212121212121212121212121212121212121212"
  "hexToBigInt DEPLOYMENT_HARDCODED_R = 0x1212121212121212121212121212121212121212121212121212121212121212"
  "hexToBigInt DEPLOYMENT_HARDCODED_S = 0x1212121212121212121212121212121212121212121212121212121212121212"
  by (simp_all add: eval_build hexToBigInt_def)

lemma hardcoded_unpadded:
  "bigIntToUnpaddedBuffer 0x1212121212121212121212121212121212121212121212121212121212121212 = replicate 32 18"
  "bigIntToUnpaddedBuffer 27 = [27]"
  unfolding replicate_32 by (simp_all add: bigIntToUnpaddedBuffer.simps)

text \<open>
  The last three fields of a serialized transaction with these v, r and s are the last 134
  hex digits of the rawTx.
\<close>

lemma bytesToHex_append: "bytesToHex (xs @ ys) = bytesToHex xs @ bytesToHex ys"
  by (simp add: bytesToHex_def)

lemma signature_suffix:
  "bytesToHex ([27] @ (160 # replicate 32 18) @ (160 # replicate 32 18)) =
     ''1ba01212121212121212121212121212121212121212121212121212121212121212a01212121212121212121212121212121212121212121212121212121212121212''"
  unfolding replicate_32 by (simp add: bytesToHex_def hexChar_def)

lemma rlp_encode_signature:
  "rlp_encode (RBytes [27]) = [27]"
  "rlp_encode (RBytes (replicate 32 18)) = 160 # replicate 32 18"
  by (simp_all add: encodeLength_def)

lemma rlp_encode_list_append:
  "rlp_encode (RList (map RBytes (xs @ [a, b, c]))) =
     (encodeLength (length (concat (map rlp_encode (map RBytes (xs @ [a, b, c])))))
        192 @ concat (map rlp_encode (map RBytes xs))) @
     rlp_encode (RBytes a) @ rlp_encode (RBytes b) @ rlp_encode (RBytes c)"
  by (simp add: Let_def del: rlp_encode.simps(1))

lemma drop_suffix: "s = xs @ ys \<Longrightarrow> length ys = n \<Longrightarrow> drop (length s - n) s = ys"
  by simp

lemma signed_raw:
  assumes "tx_v t = Some 27" "tx_r t = Some 0x1212121212121212121212121212121212121212121212121212121212121212" "tx_s t = Some 0x1212121212121212121212121212121212121212121212121212121212121212"
  shows "drop 6 (raw t) = [[27], replicate 32 18, replicate 32 18]"
  unfolding raw_def optUnpadded_def assms option.case hardcoded_unpadded by simp

lemma signed_serialize:
  assumes d: "drop 6 (raw t) = [[27], replicate 32 18, replicate 32 18]"
  shows "drop (length (''0x'' @ bytesToHex (serialize t)) - 134)
      (''0x'' @ bytesToHex (serialize t)) =
     ''1ba01212121212121212121212121212121212121212121212121212121212121212a01212121212121212121212121212121212121212121212121212121212121212''"
proof -
  have "raw t = take 6 (raw t) @ drop 6 (raw t)" by simp
  then have r: "raw t = take 6 (raw t) @ [[27], replicate 32 18, replicate 32 18]"
    by (simp only: d)
  have "serialize t = rlp_encode (RList (map RBytes
      (take 6 (raw t) @ [[27], replicate 32 18, replicate 32 18])))"
    unfolding serialize_def by (subst r) (rule refl)
  then have "bytesToHex (serialize t) =
      bytesToHex (encodeLength (length (concat (map rlp_encode (map RBytes
          (take 6 (raw t) @ [[27], replicate 32 18, replicate 32 18]))))) 192 @
        concat (map rlp_encode (map RBytes (take 6 (raw t))))) @
      ''1ba01212121212121212121212121212121212121212121212121212121212121212a01212121212121212121212121212121212121212121212121212121212121212''"
    by (simp only: rlp_encode_list_append rlp_encode_signature bytesToHex_append[of "_ @ _"]
        signature_suffix)
  then have "''0x'' @ bytesToHex (serialize t) =
      (''0x'' @ bytesToHex (encodeLength (length (concat (map rlp_encode (map RBytes
          (take 6 (raw t) @ [[27], replicate 32 18, replicate 32 18]))))) 192 @
        concat (map rlp_encode (map RBytes (take 6 (raw t)))))) @
      ''1ba01212121212121212121212121212121212121212121212121212121212121212a01212121212121212121212121212121212121212121212121212121212121212''"
    by (simp only: append_assoc)
  moreover have "length ''1ba01212121212121212121212121212121212121212121212121212121212121212a01212121212121212121212121212121212121212121212121212121212121212'' = 134"
    by simp
  ultimately show ?thesis by (rule drop_suffix)
qed

text \<open>
  C3 (amended). When no override r is given, both builders use the fixed r made of 32 bytes
  \<open>0x12\<close> (256 bits), the same constant for s, and v fixed at 27 (\<open>0x1b\<close>). These values
  are the r, s and v of the result, and they are the signature of the transaction that is
  built: the transaction data handed to the library carry the three constants, the
  transaction object has v = 27 and r = s = the 256-bit integer of 32 bytes \<open>0x12\<close>, the
  last three serialized fields are these bytes, the rawTx is the hex of that serialization
  and ends with \<open>1b\<close>, \<open>a0\<close> and r, \<open>a0\<close> and s, and the sender (deployer) address of the
  result is recovered from that same transaction.
\<close>

theorem default_signature_constants:
  "(tc_r c = None \<and> genRawTransaction env c = Inr res \<longrightarrow>
      tr_r res =
        ''0x1212121212121212121212121212121212121212121212121212121212121212'' \<and>
      tr_s res =
        ''0x1212121212121212121212121212121212121212121212121212121212121212'' \<and>
      tr_v res = ''0x1b'' \<and>
      toBuffer (tr_r res) = Some (replicate 32 0x12) \<and>
      toBuffer (tr_s res) = Some (replicate 32 0x12) \<and>
      map_option bufferToBigInt (toBuffer (tr_v res)) = Some 27 \<and>
      (\<exists>tx sender.
         fromTxData \<lparr>td_nonce = Some ''0x00'',
            td_gasPrice = Some (toHexInput (the (tc_gasPrice c))),
            td_gasLimit = Some (toHexInput (the (tc_gasLimit c))), td_to = tc_to c,
            td_value = Some (toHexInput (the (tc_value c))), td_data = tc_data c,
            td_v = Some ''0x1b'',
            td_r = Some
        ''0x1212121212121212121212121212121212121212121212121212121212121212'',
            td_s = Some
        ''0x1212121212121212121212121212121212121212121212121212121212121212''\<rparr> = Some tx \<and>
         tx_v tx = Some 27 \<and>
         tx_r tx = Some
        0x1212121212121212121212121212121212121212121212121212121212121212 \<and>
         tx_s tx = Some
        0x1212121212121212121212121212121212121212121212121212121212121212 \<and>
         drop 6 (raw tx) = [[27], replicate 32 0x12, replicate 32 0x12] \<and>
         tr_rawTx res = ''0x'' @ bytesToHex (serialize tx) \<and>
         getSenderAddress env tx = Some sender \<and>
         tr_senderAddress res =
           (if \<not> isValidChecksumAddress env (addressToString sender)
            then toChecksumAddress env (addressToString sender) else addressToString sender)) \<and>
      drop (length (tr_rawTx res) - 134) (tr_rawTx res) =
        ''1ba01212121212121212121212121212121212121212121212121212121212121212a01212121212121212121212121212121212121212121212121212121212121212'') \<and>
   (dc_r d = None \<and> genRawDeployment env d = Inr res' \<longrightarrow>
      dr_r res' =
        ''0x1212121212121212121212121212121212121212121212121212121212121212'' \<and>
      dr_s res' =
        ''0x1212121212121212121212121212121212121212121212121212121212121212'' \<and>
      dr_v res' = ''0x1b'' \<and>
      toBuffer (dr_r res') = Some (replicate 32 0x12) \<and>
      toBuffer (dr_s res') = Some (replicate 32 0x12) \<and>
      map_option bufferToBigInt (toBuffer (dr_v res')) = Some 27 \<and>
      (\<exists>tx sender.
         fromTxData \<lparr>td_nonce = Some ''0x00'',
            td_gasPrice = Some (toHexInput (the (dc_gasPrice d))),
            td_gasLimit = Some (toHexInput (the (dc_gasLimit d))), td_to = None,
            td_value = Some (toHexInput (the (dc_value d))), td_data = dc_bytecode d,
            td_v = Some ''0x1b'',
            td_r = Some
        ''0x1212121212121212121212121212121212121212121212121212121212121212'',
            td_s = Some
        ''0x1212121212121212121212121212121212121212121212121212121212121212''\<rparr> = Some tx \<and>
         tx_v tx = Some 27 \<and>
         tx_r tx = Some
        0x1212121212121212121212121212121212121212121212121212121212121212 \<and>
         tx_s tx = Some
        0x1212121212121212121212121212121212121212121212121212121212121212 \<and>
         drop 6 (raw tx) = [[27], replicate 32 0x12, replicate 32 0x12] \<and>
         dr_rawTx res' = ''0x'' @ bytesToHex (serialize tx) \<and>
         getSenderAddress env tx = Some sender \<and>
         dr_deployerAddress res' =
           (if \<not> isValidChecksumAddress env (addressToString sender)
            then toChecksumAddress env (addressToString sender) else addressToString sender)) \<and>
      drop (length (dr_rawTx res') - 134) (dr_rawTx res') =
        ''1ba01212121212121212121212121212121212121212121212121212121212121212a01212121212121212121212121212121212121212121212121212121212121212'')"
proof (intro conjI impI)
  assume a: "tc_r c = None \<and> genRawTransaction env c = Inr res"
  then have ok: "genRawTransaction env c = Inr res" by (rule conjunct2)
  from a genRawTransaction_InrD[of env c res]
  have r: "tr_r res = HARDCODED_R" "tr_s res = HARDCODED_S"
    "tr_v res = HARDCODED_V"
    by (auto simp: truthy_string_def)
  then show r': "tr_r res =
        ''0x1212121212121212121212121212121212121212121212121212121212121212''"
    "tr_s res =
        ''0x1212121212121212121212121212121212121212121212121212121212121212''"
    "tr_v res = ''0x1b''"
    by (simp_all add: HARDCODED_R_def HARDCODED_S_def HARDCODED_V_def)
  from r show "toBuffer (tr_r res) = Some (replicate 32 0x12)"
    "toBuffer (tr_s res) = Some (replicate 32 0x12)"
    "map_option bufferToBigInt (toBuffer (tr_v res)) = Some 27"
    by (simp_all add: hardcoded_bytes)
  from genRawTransaction_signed[OF ok] obtain tx sender where
    td: "fromTxData \<lparr>td_nonce = Some ''0x00'',
       td_gasPrice = Some (toHexInput (the (tc_gasPrice c))),
       td_gasLimit = Some (toHexInput (the (tc_gasLimit c))), td_to = tc_to c,
       td_value = Some (toHexInput (the (tc_value c))), td_data = tc_data c,
       td_v = Some (tr_v res), td_r = Some (tr_r res), td_s = Some (tr_s res)\<rparr> = Some tx"
    and rawTx: "tr_rawTx res = ''0x'' @ bytesToHex (serialize tx)"
    and sender: "getSenderAddress env tx = Some sender"
    and sa: "tr_senderAddress res =
      (if \<not> isValidChecksumAddress env (addressToString sender)
       then toChecksumAddress env (addressToString sender) else addressToString sender)"
    and v: "tx_v tx = Some 27"
    and rs: "tx_r tx = Some (hexToBigInt (tr_r res))" "tx_s tx = Some (hexToBigInt (tr_s res))"
    by blast
  have td': "fromTxData \<lparr>td_nonce = Some ''0x00'',
       td_gasPrice = Some (toHexInput (the (tc_gasPrice c))),
       td_gasLimit = Some (toHexInput (the (tc_gasLimit c))), td_to = tc_to c,
       td_value = Some (toHexInput (the (tc_value c))), td_data = tc_data c,
       td_v = Some ''0x1b'',
       td_r = Some
        ''0x1212121212121212121212121212121212121212121212121212121212121212'',
       td_s = Some
        ''0x1212121212121212121212121212121212121212121212121212121212121212''\<rparr> = Some tx"
    using td by (simp only: r')
  have rs': "tx_r tx = Some
        0x1212121212121212121212121212121212121212121212121212121212121212"
    "tx_s tx = Some
        0x1212121212121212121212121212121212121212121212121212121212121212"
    using rs by (simp_all only: r hardcoded_ints)
  note d = signed_raw[OF v rs']
  show "\<exists>tx sender.
      fromTxData \<lparr>td_nonce = Some ''0x00'',
         td_gasPrice = Some (toHexInput (the (tc_gasPrice c))),
         td_gasLimit = Some (toHexInput (the (tc_gasLimit c))), td_to = tc_to c,
         td_value = Some (toHexInput (the (tc_value c))), td_data = tc_data c,
         td_v = Some ''0x1b'',
         td_r = Some
        ''0x1212121212121212121212121212121212121212121212121212121212121212'',
         td_s = Some
        ''0x1212121212121212121212121212121212121212121212121212121212121212''\<rparr> = Some tx \<and>
      tx_v tx = Some 27 \<and>
      tx_r tx = Some
        0x1212121212121212121212121212121212121212121212121212121212121212 \<and>
      tx_s tx = Some
        0x1212121212121212121212121212121212121212121212121212121212121212 \<and>
      drop 6 (raw tx) = [[27], replicate 32 0x12, replicate 32 0x12] \<and>
      tr_rawTx res = ''0x'' @ bytesToHex (serialize tx) \<and>
      getSenderAddress env tx = Some sender \<and>
      tr_senderAddress res =
        (if \<not> isValidChecksumAddress env (addressToString sender)
         then toChecksumAddress env (addressToString sender) else addressToString sender)"
    by (intro exI conjI) (rule td', rule v, rule rs'(1), rule rs'(2), rule d, rule rawTx,
        rule sender, rule sa)
  show "drop (length (tr_rawTx res) - 134) (tr_rawTx res) =
      ''1ba01212121212121212121212121212121212121212121212121212121212121212a01212121212121212121212121212121212121212121212121212121212121212''"
    unfolding rawTx by (rule signed_serialize[OF d])
next
  assume a: "dc_r d = None \<and> genRawDeployment env d = Inr res'"
  then have ok: "genRawDeployment env d = Inr res'" by (rule conjunct2)
  from a genRawDeployment_InrD[of env d res']
  have r: "dr_r res' = DEPLOYMENT_HARDCODED_R" "dr_s res' = DEPLOYMENT_HARDCODED_S"
    "dr_v res' = DEPLOYMENT_HARDCODED_V"
    by (auto simp: truthy_string_def)
  then show r': "dr_r res' =
        ''0x1212121212121212121212121212121212121212121212121212121212121212''"
    "dr_s res' =
        ''0x1212121212121212121212121212121212121212121212121212121212121212''"
    "dr_v res' = ''0x1b''"
    by (simp_all add: DEPLOYMENT_HARDCODED_R_def DEPLOYMENT_HARDCODED_S_def DEPLOYMENT_HARDCODED_V_def)
  from r show "toBuffer (dr_r res') = Some (replicate 32 0x12)"
    "toBuffer (dr_s res') = Some (replicate 32 0x12)"
    "map_option bufferToBigInt (toBuffer (dr_v res')) = Some 27"
    by (simp_all add: hardcoded_bytes)
  from genRawDeployment_signed[OF ok] obtain tx sender where
    td: "fromTxData \<lparr>td_nonce = Some ''0x00'',
       td_gasPrice = Some (toHexInput (the (dc_gasPrice d))),
       td_gasLimit = Some (toHexInput (the (dc_gasLimit d))), td_to = None,
       td_value = Some (toHexInput (the (dc_value d))), td_data = dc_bytecode d,
       td_v = Some (dr_v res'), td_r = Some (dr_r res'), td_s = Some (dr_s res')\<rparr> = Some tx"
    and rawTx: "dr_rawTx res' = ''0x'' @ bytesToHex (serialize tx)"
    and sender: "getSenderAddress env tx = Some sender"
    and sa: "dr_deployerAddress res' =
      (if \<not> isValidChecksumAddress env (addressToString sender)
       then toChecksumAddress env (addressToString sender) else addressToString sender)"
    and v: "tx_v tx = Some 27"
    and rs: "tx_r tx = Some (hexToBigInt (dr_r res'))" "tx_s tx = Some (hexToBigInt (dr_s res'))"
    by blast
  have td': "fromTxData \<lparr>td_nonce = Some ''0x00'',
       td_gasPrice = Some (toHexInput (the (dc_gasPrice d))),
       td_gasLimit = Some (toHexInput (the (dc_gasLimit d))), td_to = None,
       td_value = Some (toHexInput (the (dc_value d))), td_data = dc_bytecode d,
       td_v = Some ''0x1b'',
       td_r = Some
        ''0x1212121212121212121212121212121212121212121212121212121212121212'',
       td_s = Some
        ''0x1212121212121212121212121212121212121212121212121212121212121212''\<rparr> = Some tx"
    using td by (simp only: r')
  have rs': "tx_r tx = Some
        0x1212121212121212121212121212121212121212121212121212121212121212"
    "tx_s tx = Some
        0x1212121212121212121212121212121212121212121212121212121212121212"
    using rs by (simp_all only: r hardcoded_ints)
  note d = signed_raw[OF v rs']
  show "\<exists>tx sender.
      fromTxData \<lparr>td_nonce = Some ''0x00'',
         td_gasPrice = Some (toHexInput (the (dc_gasPrice d))),
         td_gasLimit = Some (toHexInput (the (dc_gasLimit d))), td_to = None,
         td_value = Some (toHexInput (the (dc_value d))), td_data = dc_bytecode d,
         td_v = Some ''0x1b'',
         td_r = Some
        ''0x1212121212121212121212121212121212121212121212121212121212121212'',
         td_s = Some
        ''0x1212121212121212121212121212121212121212121212121212121212121212''\<rparr> = Some tx \<and>
      tx_v tx = Some 27 \<and>
      tx_r tx = Some
        0x1212121212121212121212121212121212121212121212121212121212121212 \<and>
      tx_s tx = Some
        0x1212121212121212121212121212121212121212121212121212121212121212 \<and>
      drop 6 (raw tx) = [[27], replicate 32 0x12, replicate 32 0x12] \<and>
      dr_rawTx res' = ''0x'' @ bytesToHex (serialize tx) \<and>
      getSenderAddress env tx = Some sender \<and>
      dr_deployerAddress res' =
        (if \<not> isValidChecksumAddress env (addressToString sender)
         then toChecksumAddress env (addressToString sender) else addressToString sender)"
    by (intro exI conjI) (rule td', rule v, rule rs'(1), rule rs'(2), rule d, rule rawTx,
        rule sender, rule sa)
  show "drop (length (dr_rawTx res') - 134) (dr_rawTx res') =
      ''1ba01212121212121212121212121212121212121212121212121212121212121212a01212121212121212121212121212121212121212121212121212121212121212''"
    unfolding rawTx by (rule signed_serialize[OF d])
qed

theorem default_signature_constants_witness:
  "tc_r validConfig = None \<and>
   (\<exists>res. genRawTransaction example_collaborators validConfig = Inr res \<and>
      tr_r res =
        ''0x1212121212121212121212121212121212121212121212121212121212121212'' \<and>
      toBuffer (tr_r res) = Some (replicate 32 0x12) \<and>
      drop (length (tr_rawTx res) - 134) (tr_rawTx res) =
        ''1ba01212121212121212121212121212121212121212121212121212121212121212a01212121212121212121212121212121212121212121212121212121212121212'') \<and>
   dc_r validDeployment = None \<and>
   (\<exists>res. genRawDeployment example_collaborators validDeployment = Inr res \<and>
      dr_r res =
        ''0x1212121212121212121212121212121212121212121212121212121212121212'' \<and>
      toBuffer (dr_r res) = Some (replicate 32 0x12) \<and>
      drop (length (dr_rawTx res) - 134) (dr_rawTx res) =
        ''1ba01212121212121212121212121212121212121212121212121212121212121212a01212121212121212121212121212121212121212121212121212121212121212'')"
proof -
  have a: "tc_r validConfig = None" by (simp add: validConfig_def)
  have b: "dc_r validDeployment = None" by (simp add: validDeployment_def)
  define r1 where "r1 = projr (genRawTransaction example_collaborators validConfig)"
  define r2 where "r2 = projr (genRawDeployment example_collaborators validDeployment)"
  have ok1: "genRawTransaction example_collaborators validConfig = Inr r1"
    unfolding r1_def by (simp only: validConfig_result sum.sel)
  have ok2: "genRawDeployment example_collaborators validDeployment = Inr r2"
    unfolding r2_def by (simp only: validDeployment_result sum.sel)
  note T = default_signature_constants [of validConfig example_collaborators r1 validDeployment r2]
  note K1 = T[THEN conjunct1, THEN mp, OF conjI[OF a ok1]]
  note K2 = T[THEN conjunct2, THEN mp, OF conjI[OF b ok2]]
  have w1: "\<exists>res. genRawTransaction example_collaborators validConfig = Inr res \<and>
      tr_r res =
        ''0x1212121212121212121212121212121212121212121212121212121212121212'' \<and>
      toBuffer (tr_r res) = Some (replicate 32 0x12) \<and>
      drop (length (tr_rawTx res) - 134) (tr_rawTx res) =
        ''1ba01212121212121212121212121212121212121212121212121212121212121212a01212121212121212121212121212121212121212121212121212121212121212''"
    by (rule exI[of _ r1]) (intro conjI, rule ok1, rule K1[THEN conjunct1],
        rule K1[THEN conjunct2, THEN conjunct2, THEN conjunct2, THEN conjunct1],
        rule K1[THEN conjunct2, THEN conjunct2, THEN conjunct2, THEN conjunct2, THEN conjunct2,
          THEN conjunct2, THEN conjunct2])
  have w2: "\<exists>res. genRawDeployment example_collaborators validDeployment = Inr res \<and>
      dr_r res =
        ''0x1212121212121212121212121212121212121212121212121212121212121212'' \<and>
      toBuffer (dr_r res) = Some (replicate 32 0x12) \<and>
      drop (length (dr_rawTx res) - 134) (dr_rawTx res) =
        ''1ba01212121212121212121212121212121212121212121212121212121212121212a01212121212121212121212121212121212121212121212121212121212121212''"
    by (rule exI[of _ r2]) (intro conjI, rule ok2, rule K2[THEN conjunct1],
        rule K2[THEN conjunct2, THEN conjunct2, THEN conjunct2, THEN conjunct1],
        rule K2[THEN conjunct2, THEN conjunct2, THEN conjunct2, THEN conjunct2, THEN conjunct2,
          THEN conjunct2, THEN conjunct2])
  from a w1 b w2 show ?thesis by (intro conjI)
qed

text \<open>
  C3 as stated fails: the r returned for the tests' config has 32 bytes, not the 34 bytes
  \<open>0x12\<close> the claim names.
\<close>

theorem default_r_not_34_bytes:
  "tc_r validConfig = None \<and>
   (\<exists>res. genRawTransaction example_collaborators validConfig = Inr res \<and>
      map_option length (toBuffer (tr_r res)) = Some 32 \<and>
      toBuffer (tr_r res) \<noteq> Some (replicate 34 0x12))"
proof -
  have "toBuffer ''0x1212121212121212121212121212121212121212121212121212121212121212''
      = Some (replicate 32 18)"
    using hardcoded_bytes(1) by (simp add: HARDCODED_R_def)
  moreover have "replicate 32 (18::nat) \<noteq> replicate 34 18"
    by simp
  ultimately show ?thesis
    by (simp add: validConfig_result) (simp add: validConfig_def)
qed

section \<open>Numbers that are not integers\<close>

lemma not_hex_chars: "\<not> isHexChar CHR ''.''" "\<not> isHexChar CHR ''-''"
  by (simp_all add: isHexChar_def)

lemma nonInteger_not_hex: "nonInteger (Some v) \<Longrightarrow> \<not> isValidHex (toHexInput v)"
proof -
  assume "nonInteger (Some v)"
  then obtain neg ip fd where v: "v = NumberV (JFrac neg ip fd)"
    by (auto simp: nonInteger_def split: numeric.splits jsnumber.splits)
  show ?thesis
    by (cases neg) (simp_all add: v isValidHex_def toHexInput_def number_toString16_def
        not_hex_chars)
qed

lemma nonInteger_the: "nonInteger x \<Longrightarrow> \<not> isValidHex (toHexInput (the x))"
  using nonInteger_not_hex [of "the x"] by (cases x) (simp_all add: nonInteger_def)

text \<open>
  C8 (amended). A config in which gasLimit, gasPrice or value is a number that is not an
  integer never builds a transaction: both builders fail. When the tests before the hex
  validation pass (the required fields are there, \<open>to\<close> is checksummed, r is absent, empty or
  valid hex), the failure is the hex-validation error, because the number's rendering in base
  16 holds a radix point and is not valid hex.
\<close>

theorem fractional_rejected:
  "(nonInteger (tc_gasLimit c) \<or> nonInteger (tc_gasPrice c) \<or> nonInteger (tc_value c) \<longrightarrow>
      (\<exists>e. genRawTransaction env c = Inl e) \<and>
      (truthy_numeric (tc_gasLimit c) \<and> truthy_numeric (tc_gasPrice c) \<and>
       truthy_string (tc_to c) \<and> truthy_string (tc_data c) \<and> tc_value c \<noteq> None \<and>
       isValidChecksumAddress env (the (tc_to c)) \<and>
       (\<not> truthy_string (tc_r c) \<or> isValidHex (the (tc_r c))) \<longrightarrow>
         genRawTransaction env c = Inl (Error ''Invalid hex values in config''))) \<and>
   (nonInteger (dc_gasLimit d) \<or> nonInteger (dc_gasPrice d) \<or> nonInteger (dc_value d) \<longrightarrow>
      (\<exists>e. genRawDeployment env d = Inl e) \<and>
      (truthy_numeric (dc_gasLimit d) \<and> truthy_numeric (dc_gasPrice d) \<and>
       truthy_string (dc_bytecode d) \<and> dc_value d \<noteq> None \<and>
       (\<not> truthy_string (dc_r d) \<or> isValidHex (the (dc_r d))) \<longrightarrow>
         genRawDeployment env d = Inl (Error ''Invalid hex values in config'')))"
proof (intro conjI impI)
  assume n: "nonInteger (tc_gasLimit c) \<or> nonInteger (tc_gasPrice c) \<or> nonInteger (tc_value c)"
  have bad: "\<not> isValidHex (toHexInput (the (tc_gasPrice c))) \<or>
      \<not> isValidHex (toHexInput (the (tc_gasLimit c))) \<or>
      \<not> isValidHex (toHexInput (the (tc_value c)))"
    using n by (auto dest: nonInteger_the)
  show "\<exists>e. genRawTransaction env c = Inl e"
  proof (cases "genRawTransaction env c")
    case (Inr res)
    from genRawTransaction_InrD[OF this] bad show ?thesis by auto
  qed simp
  assume "truthy_numeric (tc_gasLimit c) \<and> truthy_numeric (tc_gasPrice c) \<and>
       truthy_string (tc_to c) \<and> truthy_string (tc_data c) \<and> tc_value c \<noteq> None \<and>
       isValidChecksumAddress env (the (tc_to c)) \<and>
       (\<not> truthy_string (tc_r c) \<or> isValidHex (the (tc_r c)))"
  with bad show "genRawTransaction env c = Inl (Error ''Invalid hex values in config'')"
    by (auto simp: genRawTransaction_def Let_def)
next
  assume n: "nonInteger (dc_gasLimit d) \<or> nonInteger (dc_gasPrice d) \<or> nonInteger (dc_value d)"
  have bad: "\<not> isValidHex (toHexInput (the (dc_gasPrice d))) \<or>
      \<not> isValidHex (toHexInput (the (dc_gasLimit d))) \<or>
      \<not> isValidHex (toHexInput (the (dc_value d)))"
    using n by (auto dest: nonInteger_the)
  show "\<exists>e. genRawDeployment env d = Inl e"
  proof (cases "genRawDeployment env d")
    case (Inr res)
    from genRawDeployment_InrD[OF this] bad show ?thesis by auto
  qed simp
  assume "truthy_numeric (dc_gasLimit d) \<and> truthy_numeric (dc_gasPrice d) \<and>
       truthy_string (dc_bytecode d) \<and> dc_value d \<noteq> None \<and>
       (\<not> truthy_string (dc_r d) \<or> isValidHex (the (dc_r d)))"
  with bad show "genRawDeployment env d = Inl (Error ''Invalid hex values in config'')"
    by (auto simp: genRawDeployment_def Let_def)
qed


theorem fractional_rejected_witness:
  "nonInteger (tc_value (validConfig\<lparr>tc_value := Some (NumberV (JFrac False 0 ''8''))\<rparr>)) \<and>
   genRawTransaction example_collaborators
     (validConfig\<lparr>tc_value := Some (NumberV (JFrac False 0 ''8''))\<rparr>) =
     Inl (Error ''Invalid hex values in config'') \<and>
   nonInteger (dc_gasLimit
     (validDeployment\<lparr>dc_gasLimit := Some (NumberV (JFrac False 100000 ''8''))\<rparr>)) \<and>
   genRawDeployment example_collaborators
     (validDeployment\<lparr>dc_gasLimit := Some (NumberV (JFrac False 100000 ''8''))\<rparr>) =
     Inl (Error ''Invalid hex values in config'')"
  using fractional_rejected
    [of "validConfig\<lparr>tc_value := Some (NumberV (JFrac False 0 ''8''))\<rparr>" example_collaborators
        "validDeployment\<lparr>dc_gasLimit := Some (NumberV (JFrac False 100000 ''8''))\<rparr>"]
  by (simp add: nonInteger_def validConfig_def validDeployment_def truthy_defs
      example_collaborators_def)

text \<open>
  C8 as stated fails: with value 0.5 and a recipient that is not checksummed, the builder
  fails with the address error, not with the hex-validation error.
\<close>

theorem fractional_with_bad_address:
  "nonInteger (tc_value (validConfig\<lparr>tc_value := Some (NumberV (JFrac False 0 ''8'')),
       tc_to := Some ''0x742d35cc6634c0532925a3b844bc454e4438f44e''\<rparr>)) \<and>
   genRawTransaction example_collaborators
     (validConfig\<lparr>tc_value := Some (NumberV (JFrac False 0 ''8'')),
       tc_to := Some ''0x742d35cc6634c0532925a3b844bc454e4438f44e''\<rparr>) =
     Inl (Error (''Invalid or non-checksummed address provided for '' @ [CHR 0x22] @ ''to''
       @ [CHR 0x22])) \<and>
   genRawTransaction example_collaborators
     (validConfig\<lparr>tc_value := Some (NumberV (JFrac False 0 ''8'')),
       tc_to := Some ''0x742d35cc6634c0532925a3b844bc454e4438f44e''\<rparr>) \<noteq>
     Inl (Error ''Invalid hex values in config'')"
  by (simp add: nonInteger_def validConfig_def genRawTransaction_def truthy_defs
      example_collaborators_def INVALID_TO_def)

section \<open>Upfront cost\<close>

lemma oneEtherAndOneWei_result:
  "genRawTransaction example_collaborators oneEtherAndOneWei = Inr
     \<lparr>tr_rawTx = ''0xf86e80843b9aca00830186a094742d35cc6634c0532925a3b844bc454e4438f44e880de0b6b3a76400018212341ba01212121212121212121212121212121212121212121212121212121212121212a01212121212121212121212121212121212121212121212121212121212121212'',
      tr_senderAddress = ''0x0000000000000000000000000000000000000000'',
      tr_upfrontCost = JInt 1000100000000000000,
      tr_r = ''0x1212121212121212121212121212121212121212121212121212121212121212'',
      tr_s = ''0x1212121212121212121212121212121212121212121212121212121212121212'',
      tr_v = ''0x1b''\<rparr>"
  by (simp add: genRawTransaction_def example_collaborators_def validConfig_def eval_build
      oneEtherAndOneWei_def)

lemma numericValue_hex: "numericValue (StringV (''0x'' @ toString16 n)) = n"
  by (simp add: numericValue_def toHexInput_def hexToBigInt_0x hexToNat_toString16
      del: append.simps)

lemma toHexInput_int: "toHexInput (NumberV (JInt (int n))) = ''0x'' @ toString16 n"
  by (simp add: toHexInput_def number_toString16_def)

lemma truthy_int_hex:
  "truthy_numeric (Some (NumberV (JInt (int n)))) = (n \<noteq> 0)"
  "truthy_numeric (Some (StringV (''0x'' @ s)))"
  by (simp_all add: truthy_defs)

text \<open>The builders read a numeric field through its truthiness and its hex form only.\<close>

lemma genRawTransaction_cong:
  assumes "tc_to c = tc_to c'" "tc_data c = tc_data c'" "tc_r c = tc_r c'"
    "truthy_numeric (tc_gasLimit c) = truthy_numeric (tc_gasLimit c')"
    "truthy_numeric (tc_gasPrice c) = truthy_numeric (tc_gasPrice c')"
    "(tc_value c = None) = (tc_value c' = None)"
    "toHexInput (the (tc_gasLimit c)) = toHexInput (the (tc_gasLimit c'))"
    "toHexInput (the (tc_gasPrice c)) = toHexInput (the (tc_gasPrice c'))"
    "toHexInput (the (tc_value c)) = toHexInput (the (tc_value c'))"
  shows "genRawTransaction env c = genRawTransaction env c'"
  unfolding genRawTransaction_def by (simp only: assms)

lemma genRawDeployment_cong:
  assumes "dc_bytecode c = dc_bytecode c'" "dc_r c = dc_r c'"
    "truthy_numeric (dc_gasLimit c) = truthy_numeric (dc_gasLimit c')"
    "truthy_numeric (dc_gasPrice c) = truthy_numeric (dc_gasPrice c')"
    "(dc_value c = None) = (dc_value c' = None)"
    "toHexInput (the (dc_gasLimit c)) = toHexInput (the (dc_gasLimit c'))"
    "toHexInput (the (dc_gasPrice c)) = toHexInput (the (dc_gasPrice c'))"
    "toHexInput (the (dc_value c)) = toHexInput (the (dc_value c'))"
  shows "genRawDeployment env c = genRawDeployment env c'"
  unfolding genRawDeployment_def by (simp only: assms)

lemma toHexInput_hex: "toHexInput (StringV s) = s"
  by (simp add: toHexInput_def)

text \<open>
  C4 (amended). For every config a builder accepts, the upfrontCost it returns is
  value + gasLimit * gasPrice converted to a JavaScript number: the nearest double, which is
  the exact integer whenever the sum is at most \<open>2^53\<close>. A non-negative integer and its hex
  string denote the same value, and the builder's outcome is the same whether a numeric field
  is given as the (non-zero, for gasLimit and gasPrice) integer or as its hex string.
\<close>

theorem upfront_cost:
  "(genRawTransaction env c = Inr res \<longrightarrow>
      tr_upfrontCost res =
        Number (numericValue (the (tc_value c)) +
                numericValue (the (tc_gasLimit c)) * numericValue (the (tc_gasPrice c))) \<and>
      (numericValue (the (tc_value c)) +
       numericValue (the (tc_gasLimit c)) * numericValue (the (tc_gasPrice c)) \<le> 2 ^ 53 \<longrightarrow>
         tr_upfrontCost res =
           JInt (int (numericValue (the (tc_value c)) +
                      numericValue (the (tc_gasLimit c)) * numericValue (the (tc_gasPrice c)))))) \<and>
   (genRawDeployment env d = Inr res' \<longrightarrow>
      dr_upfrontCost res' =
        Number (numericValue (the (dc_value d)) +
                numericValue (the (dc_gasLimit d)) * numericValue (the (dc_gasPrice d))) \<and>
      (numericValue (the (dc_value d)) +
       numericValue (the (dc_gasLimit d)) * numericValue (the (dc_gasPrice d)) \<le> 2 ^ 53 \<longrightarrow>
         dr_upfrontCost res' =
           JInt (int (numericValue (the (dc_value d)) +
                      numericValue (the (dc_gasLimit d)) * numericValue (the (dc_gasPrice d)))))) \<and>
   numericValue (NumberV (JInt (int n))) = n \<and>
   numericValue (StringV (''0x'' @ toString16 n)) = n \<and>
   (0 < n \<longrightarrow>
      genRawTransaction env (c\<lparr>tc_gasLimit := Some (NumberV (JInt (int n)))\<rparr>) =
        genRawTransaction env (c\<lparr>tc_gasLimit := Some (StringV (''0x'' @ toString16 n))\<rparr>) \<and>
      genRawTransaction env (c\<lparr>tc_gasPrice := Some (NumberV (JInt (int n)))\<rparr>) =
        genRawTransaction env (c\<lparr>tc_gasPrice := Some (StringV (''0x'' @ toString16 n))\<rparr>) \<and>
      genRawDeployment env (d\<lparr>dc_gasLimit := Some (NumberV (JInt (int n)))\<rparr>) =
        genRawDeployment env (d\<lparr>dc_gasLimit := Some (StringV (''0x'' @ toString16 n))\<rparr>) \<and>
      genRawDeployment env (d\<lparr>dc_gasPrice := Some (NumberV (JInt (int n)))\<rparr>) =
        genRawDeployment env (d\<lparr>dc_gasPrice := Some (StringV (''0x'' @ toString16 n))\<rparr>)) \<and>
   genRawTransaction env (c\<lparr>tc_value := Some (NumberV (JInt (int n)))\<rparr>) =
     genRawTransaction env (c\<lparr>tc_value := Some (StringV (''0x'' @ toString16 n))\<rparr>) \<and>
   genRawDeployment env (d\<lparr>dc_value := Some (NumberV (JInt (int n)))\<rparr>) =
     genRawDeployment env (d\<lparr>dc_value := Some (StringV (''0x'' @ toString16 n))\<rparr>)"
proof (intro conjI impI)
  assume ok: "genRawTransaction env c = Inr res"
  from genRawTransaction_tx[OF ok]
  show "tr_upfrontCost res =
        Number (numericValue (the (tc_value c)) +
                numericValue (the (tc_gasLimit c)) * numericValue (the (tc_gasPrice c)))"
    by (auto simp: getUpfrontCost_def add.commute)
  then show "tr_upfrontCost res =
           JInt (int (numericValue (the (tc_value c)) +
                      numericValue (the (tc_gasLimit c)) * numericValue (the (tc_gasPrice c))))"
    if "numericValue (the (tc_value c)) +
       numericValue (the (tc_gasLimit c)) * numericValue (the (tc_gasPrice c)) \<le> 2 ^ 53"
    using Number_exact[OF that] by simp
next
  assume ok: "genRawDeployment env d = Inr res'"
  from genRawDeployment_tx[OF ok]
  show "dr_upfrontCost res' =
        Number (numericValue (the (dc_value d)) +
                numericValue (the (dc_gasLimit d)) * numericValue (the (dc_gasPrice d)))"
    by (auto simp: getUpfrontCost_def add.commute)
  then show "dr_upfrontCost res' =
           JInt (int (numericValue (the (dc_value d)) +
                      numericValue (the (dc_gasLimit d)) * numericValue (the (dc_gasPrice d))))"
    if "numericValue (the (dc_value d)) +
       numericValue (the (dc_gasLimit d)) * numericValue (the (dc_gasPrice d)) \<le> 2 ^ 53"
    using Number_exact[OF that] by simp
next
  show "numericValue (NumberV (JInt (int n))) = n"
    using numericValue_int[of "int n"] by simp
  show "numericValue (StringV (''0x'' @ toString16 n)) = n"
    by (rule numericValue_hex)
next
  assume "0 < n"
  then show "genRawTransaction env (c\<lparr>tc_gasLimit := Some (NumberV (JInt (int n)))\<rparr>) =
        genRawTransaction env (c\<lparr>tc_gasLimit := Some (StringV (''0x'' @ toString16 n))\<rparr>)"
    "genRawTransaction env (c\<lparr>tc_gasPrice := Some (NumberV (JInt (int n)))\<rparr>) =
        genRawTransaction env (c\<lparr>tc_gasPrice := Some (StringV (''0x'' @ toString16 n))\<rparr>)"
    by (intro genRawTransaction_cong;
        simp add: truthy_int_hex toHexInput_int toHexInput_hex del: append.simps)+
next
  assume "0 < n"
  then show "genRawDeployment env (d\<lparr>dc_gasLimit := Some (NumberV (JInt (int n)))\<rparr>) =
        genRawDeployment env (d\<lparr>dc_gasLimit := Some (StringV (''0x'' @ toString16 n))\<rparr>)"
    "genRawDeployment env (d\<lparr>dc_gasPrice := Some (NumberV (JInt (int n)))\<rparr>) =
        genRawDeployment env (d\<lparr>dc_gasPrice := Some (StringV (''0x'' @ toString16 n))\<rparr>)"
    by (intro genRawDeployment_cong;
        simp add: truthy_int_hex toHexInput_int toHexInput_hex del: append.simps)+
next
  show "genRawTransaction env (c\<lparr>tc_value := Some (NumberV (JInt (int n)))\<rparr>) =
     genRawTransaction env (c\<lparr>tc_value := Some (StringV (''0x'' @ toString16 n))\<rparr>)"
    by (intro genRawTransaction_cong;
        simp add: truthy_int_hex toHexInput_int toHexInput_hex del: append.simps)
  show "genRawDeployment env (d\<lparr>dc_value := Some (NumberV (JInt (int n)))\<rparr>) =
     genRawDeployment env (d\<lparr>dc_value := Some (StringV (''0x'' @ toString16 n))\<rparr>)"
    by (intro genRawDeployment_cong;
        simp add: truthy_int_hex toHexInput_int toHexInput_hex del: append.simps)
qed


theorem upfront_cost_witness:
  "(\<exists>res. genRawTransaction example_collaborators validConfig = Inr res \<and>
      tr_upfrontCost res = JInt 100000000000000) \<and>
   genRawTransaction example_collaborators hexConfig =
     genRawTransaction example_collaborators validConfig \<and>
   (\<exists>res. genRawDeployment example_collaborators validDeployment = Inr res \<and>
      dr_upfrontCost res = JInt 100000000000000000)"
proof -
  define c1 where "c1 = validConfig\<lparr>tc_gasLimit := Some (StringV ''0x186a0'')\<rparr>"
  define c2 where "c2 = c1\<lparr>tc_gasPrice := Some (StringV ''0x3b9aca00'')\<rparr>"
  have e: "toString16 100000 = ''186a0''" "toString16 1000000000 = ''3b9aca00''"
    "toString16 0 = ''0''"
    by (simp_all add: toString16.simps hexChar_def)
  have "genRawTransaction example_collaborators validConfig =
      genRawTransaction example_collaborators c1"
    using upfront_cost [of example_collaborators validConfig
        "projr (genRawTransaction example_collaborators validConfig)" validDeployment
        "projr (genRawDeployment example_collaborators validDeployment)" 100000]
    by (simp add: e c1_def) (simp add: validConfig_def)
  also have "\<dots> = genRawTransaction example_collaborators c2"
    using upfront_cost [of example_collaborators c1
        "projr (genRawTransaction example_collaborators c1)" validDeployment
        "projr (genRawDeployment example_collaborators validDeployment)" 1000000000]
    by (simp add: e c2_def) (simp add: c1_def validConfig_def)
  also have "\<dots> = genRawTransaction example_collaborators hexConfig"
    using upfront_cost [of example_collaborators c2
        "projr (genRawTransaction example_collaborators c2)" validDeployment
        "projr (genRawDeployment example_collaborators validDeployment)" 0]
    by (simp add: e) (simp add: c2_def c1_def validConfig_def hexConfig_def)
  finally have "genRawTransaction example_collaborators hexConfig =
      genRawTransaction example_collaborators validConfig"
    by (rule sym)
  then show ?thesis
    by (simp add: validConfig_result validDeployment_result)
qed

text \<open>
  C4 as stated fails: for a value of one ether and one wei the exact cost is
  1000100000000000001, and the number returned is 1000100000000000000.
\<close>

theorem upfront_cost_rounded:
  "\<exists>res. genRawTransaction example_collaborators oneEtherAndOneWei = Inr res \<and>
     tr_upfrontCost res = JInt 1000100000000000000 \<and>
     numericValue (the (tc_value oneEtherAndOneWei)) +
       numericValue (the (tc_gasLimit oneEtherAndOneWei)) *
       numericValue (the (tc_gasPrice oneEtherAndOneWei)) = 1000100000000000001"
proof -
  have "numericValue (StringV ''0xde0b6b3a7640001'') = 1000000000000000001"
    by (simp add: numericValue_def toHexInput_def hexToBigInt_def eval_build)
  moreover have "numericValue (NumberV (JInt 100000)) = 100000"
    "numericValue (NumberV (JInt 1000000000)) = 1000000000"
    using numericValue_int[of 100000] numericValue_int[of 1000000000] by simp_all
  ultimately show ?thesis
    by (simp add: oneEtherAndOneWei_result) (simp add: oneEtherAndOneWei_def validConfig_def)
qed

section \<open>The parser on the Nick factory transaction\<close>

lemmas eval_parse = recoverRawTransaction_def isValidHex_def isHexChar_def hexVal_def
  hexChar_def fromSerializedTx_def rlp_decode_def rlp_decode1_def rlp_header_def
  rlp_items.simps fromValuesArray_def asBuffer_def noLeadingZero_def newTransaction_def
  validFields_def withinMax_def optBigInt_def bufferToBigInt_def MAX_INTEGER_def
  MAX_UINT64_def Number_def bitlen.simps addressToString_def bytesToHex_def toString16.simps
  Let_def

lemma nickFactory_parsed:
  "recoverRawTransaction nickFactoryRawTx =
     Inr \<lparr>rt_nonce = JInt 0, rt_gasPrice = JInt 100000000000, rt_gasLimit = JInt 100000,
          rt_to = None, rt_value = JInt 0, rt_data = nickFactoryData, rt_v = Some ''0x1b'',
          rt_r = Some ''0x2222222222222222222222222222222222222222222222222222222222222222'',
          rt_s = Some ''0x2222222222222222222222222222222222222222222222222222222222222222''\<rparr>"
  by (simp add: nickFactoryRawTx_def nickFactoryData_def eval_parse)

lemma concat_replicate_32:
  "concat (replicate 32 ''22'') =
     ''2222222222222222222222222222222222222222222222222222222222222222''"
  by (simp add: replicate_32)

text \<open>
  C2 (amended). Parsing the raw transaction of the Nick factory gives nonce 0, gasLimit
  100000, gasPrice 100000000000, value 0, v \<open>0x1b\<close>, r and s both the constant of 32 bytes
  \<open>0x22\<close>, the factory's bytecode as data, and no \<open>to\<close>.
\<close>

theorem known_vector:
  "recoverRawTransaction nickFactoryRawTx =
     Inr \<lparr>rt_nonce = JInt 0, rt_gasPrice = JInt 100000000000, rt_gasLimit = JInt 100000,
          rt_to = None, rt_value = JInt 0, rt_data = nickFactoryData, rt_v = Some ''0x1b'',
          rt_r = Some (''0x'' @ concat (replicate 32 ''22'')),
          rt_s = Some (''0x'' @ concat (replicate 32 ''22''))\<rparr>"
  by (simp only: nickFactory_parsed concat_replicate_32) simp

text \<open>
  C2 as stated fails: the r and s parsed from the vector are not the constant of 34 bytes
  \<open>0x22\<close>; each has 32 bytes.
\<close>

theorem known_vector_r_not_34_bytes:
  "\<exists>res. recoverRawTransaction nickFactoryRawTx = Inr res \<and>
     rt_r res \<noteq> Some (''0x'' @ concat (replicate 34 ''22'')) \<and>
     rt_s res \<noteq> Some (''0x'' @ concat (replicate 34 ''22'')) \<and>
     map_option length (rt_r res) = Some (2 + 2 * 32) \<and>
     map_option length (rt_s res) = Some (2 + 2 * 32)"
proof -
  have "length (concat (replicate 34 ''22'')) = 68"
    by (simp add: length_concat sum_list_replicate)
  then have "concat (replicate 34 ''22'') \<noteq>
      ''2222222222222222222222222222222222222222222222222222222222222222''"
    by auto
  then show ?thesis
    by (simp add: nickFactory_parsed)
qed

section \<open>The structure the parser accepts\<close>

lemma those_asBuffer_SomeD:
  "those (map asBuffer vals) = Some flds \<Longrightarrow> vals = map RBytes flds"
proof (induction vals arbitrary: flds)
  case Nil
  then show ?case by simp
next
  case (Cons x xs)
  then show ?case
    by (cases x) (auto simp: asBuffer_def split: option.splits)
qed

lemma length_6D: "length xs = 6 \<Longrightarrow> \<exists>a b c d e f. xs = [a, b, c, d, e, f]"
  by (auto simp: numeral_eq_Suc length_Suc_conv)

lemma length_9D:
  "length xs = 9 \<Longrightarrow> \<exists>a b c d e f g h i. xs = [a, b, c, d, e, f, g, h, i]"
  by (auto simp: numeral_eq_Suc length_Suc_conv)

lemma newTransaction_SomeD:
  assumes "newTransaction nonce gasPrice gasLimit to val data v r s = Some tx"
  shows "tx_v tx = optBigInt v" "tx_r tx = optBigInt r" "tx_s tx = optBigInt s"
    "tx_to tx = None \<longleftrightarrow> to = []"
  using assms by (auto simp: newTransaction_def Let_def split: if_splits)

lemma fromValuesArray_SomeD:
  assumes "fromValuesArray vals = Some tx"
  shows "\<exists>flds. vals = map RBytes flds \<and> (length flds = 6 \<or> length flds = 9) \<and>
    (length flds = 6 \<longrightarrow> tx_v tx = None \<and> tx_r tx = None \<and> tx_s tx = None) \<and>
    (tx_to tx = None \<longleftrightarrow> flds ! 3 = [])"
proof -
  from assms have len: "length vals = 6 \<or> length vals = 9"
    by (auto simp: fromValuesArray_def split: if_splits)
  with assms obtain flds where f: "those (map asBuffer vals) = Some flds"
    by (cases "those (map asBuffer vals)") (auto simp: fromValuesArray_def)
  note v = those_asBuffer_SomeD[OF f]
  with len have lf: "length flds = 6 \<or> length flds = 9" by auto
  then show ?thesis
  proof
    assume "length flds = 6"
    from length_6D[OF this] obtain a b c d e g where fs: "flds = [a, b, c, d, e, g]"
      by blast
    with assms f len have "newTransaction a b c d e g [] [] [] = Some tx"
      by (auto simp: fromValuesArray_def split: if_splits)
    from newTransaction_SomeD[OF this] v fs show ?thesis
      by (intro exI[of _ flds]) (auto simp: optBigInt_def)
  next
    assume "length flds = 9"
    from length_9D[OF this] obtain a b c d e g h i j where
      fs: "flds = [a, b, c, d, e, g, h, i, j]"
      by blast
    with assms f len have "newTransaction a b c d e g h i j = Some tx"
      by (auto simp: fromValuesArray_def split: if_splits)
    from newTransaction_SomeD[OF this] v fs show ?thesis
      by (intro exI[of _ flds]) auto
  qed
qed

lemma recoverRawTransaction_InrD:
  assumes "recoverRawTransaction rawTransaction = Inr res"
  shows "isValidHex rawTransaction \<and>
    (\<exists>tx. fromSerializedTx (hexToBytes (drop 2 rawTransaction)) = Some tx \<and>
       rt_to res = map_option addressToString (tx_to tx) \<and>
       rt_v res = map_option (\<lambda>v. ''0x'' @ toString16 v) (tx_v tx) \<and>
       rt_r res = map_option (\<lambda>r. ''0x'' @ toString16 r) (tx_r tx) \<and>
       rt_s res = map_option (\<lambda>s. ''0x'' @ toString16 s) (tx_s tx))"
proof -
  from assms have v: "isValidHex rawTransaction"
    by (auto simp: recoverRawTransaction_def split: if_splits)
  then have "take 2 rawTransaction = ''0x''" by (simp add: isValidHex_def)
  with assms v show ?thesis
    by (auto simp: recoverRawTransaction_def Let_def split: option.splits)
qed

lemma fromSerializedTx_SomeD:
  assumes "fromSerializedTx serialized = Some tx"
  shows "\<exists>flds. rlp_decode serialized = Some (RList (map RBytes flds)) \<and>
    (length flds = 6 \<or> length flds = 9) \<and>
    (length flds = 6 \<longrightarrow> tx_v tx = None \<and> tx_r tx = None \<and> tx_s tx = None) \<and>
    (tx_to tx = None \<longleftrightarrow> flds ! 3 = [])"
proof -
  from assms obtain vals where d: "rlp_decode serialized = Some (RList vals)"
    and f: "fromValuesArray vals = Some tx"
    by (auto simp: fromSerializedTx_def split: option.splits rlp.splits)
  from fromValuesArray_SomeD[OF f] d show ?thesis by auto
qed

text \<open>The six unsigned fields alone, encoded as a list.\<close>

lemma unsigned_fields:
  assumes "wellFormedTx t"
  shows "\<forall>b \<in> set (take 6 (raw t)). length b < 2 ^ 64 \<and> (\<forall>x \<in> set b. x < 256)"
    and "length (concat (map (\<lambda>b. rlp_encode (RBytes b)) (take 6 (raw t)))) < 2 ^ 64"
proof -
  from raw_fields(1)[OF assms] show "\<forall>b \<in> set (take 6 (raw t)). length b < 2 ^ 64 \<and> (\<forall>x \<in> set b. x < 256)"
    by (meson in_set_takeD)
  have "concat (map (\<lambda>b. rlp_encode (RBytes b)) (raw t)) =
      concat (map (\<lambda>b. rlp_encode (RBytes b)) (take 6 (raw t))) @
      concat (map (\<lambda>b. rlp_encode (RBytes b)) (drop 6 (raw t)))"
    by (metis append_take_drop_id concat_append map_append)
  with raw_fields(2)[OF assms]
  show "length (concat (map (\<lambda>b. rlp_encode (RBytes b)) (take 6 (raw t)))) < 2 ^ 64"
    by simp
qed

lemma fromSerializedTx_unsigned:
  assumes "wellFormedTx t"
  shows "fromSerializedTx (rlp_encode (RList (map RBytes (take 6 (raw t))))) =
    Some (t\<lparr>tx_v := None, tx_r := None, tx_s := None\<rparr>)"
proof -
  from assms have v: "validFields t"
    by (simp_all add: wellFormedTx_def)
  define to where "to = (case tx_to t of None \<Rightarrow> [] | Some a \<Rightarrow> a)"
  from assms have to: "to = [] \<or> length to = 20" "(if to = [] then None else Some to) = tx_to t"
    by (auto simp: wellFormedTx_def to_def split: option.splits)
  have r: "take 6 (raw t) = [bigIntToUnpaddedBuffer (tx_nonce t),
            bigIntToUnpaddedBuffer (tx_gasPrice t),
            bigIntToUnpaddedBuffer (tx_gasLimit t), to,
            bigIntToUnpaddedBuffer (tx_value t), tx_data t]"
    by (simp add: raw_def to_def)
  have t: "\<lparr>tx_nonce = tx_nonce t, tx_gasPrice = tx_gasPrice t, tx_gasLimit = tx_gasLimit t,
      tx_to = tx_to t, tx_value = tx_value t, tx_data = tx_data t, tx_v = None,
      tx_r = None, tx_s = None\<rparr> = t\<lparr>tx_v := None, tx_r := None, tx_s := None\<rparr>"
    by simp
  have n: "newTransaction (bigIntToUnpaddedBuffer (tx_nonce t))
      (bigIntToUnpaddedBuffer (tx_gasPrice t)) (bigIntToUnpaddedBuffer (tx_gasLimit t)) to
      (bigIntToUnpaddedBuffer (tx_value t)) (tx_data t) [] [] [] =
      Some (t\<lparr>tx_v := None, tx_r := None, tx_s := None\<rparr>)"
    using to v
    by (auto simp: newTransaction_def bufferToBigInt_unpadded optBigInt_def t Let_def
        validFields_def withinMax_def)
  have "fromValuesArray (map RBytes (take 6 (raw t))) =
      Some (t\<lparr>tx_v := None, tx_r := None, tx_s := None\<rparr>)"
    unfolding fromValuesArray_def those_asBuffer
    by (simp add: r n unpadded_noLeadingZero)
  moreover have "rlp_decode (rlp_encode (RList (map RBytes (take 6 (raw t))))) =
      Some (RList (map RBytes (take 6 (raw t))))"
    using unsigned_fields[OF assms] by (intro rlp_decode_encode_list) auto
  ultimately show ?thesis
    by (simp add: fromSerializedTx_def)
qed

lemma recoverRawTransaction_unsigned:
  assumes "wellFormedTx t"
  shows "recoverRawTransaction
      (''0x'' @ bytesToHex (rlp_encode (RList (map RBytes (take 6 (raw t)))))) =
    Inr \<lparr>rt_nonce = Number (tx_nonce t), rt_gasPrice = Number (tx_gasPrice t),
         rt_gasLimit = Number (tx_gasLimit t),
         rt_to = map_option addressToString (tx_to t),
         rt_value = Number (tx_value t),
         rt_data = ''0x'' @ bytesToHex (tx_data t),
         rt_v = None, rt_r = None, rt_s = None\<rparr>"
proof -
  define enc where "enc = rlp_encode (RList (map RBytes (take 6 (raw t))))"
  have b: "\<forall>x \<in> set enc. x < 256"
    unfolding enc_def using unsigned_fields[OF assms] by (intro rlp_encode_list_bytes) auto
  have v: "isValidHex (''0x'' @ bytesToHex enc)"
    by (rule isValidHex_bytesToHex[OF b])
  have h: "hexToBytes (bytesToHex enc) = enc"
    by (rule hexToBytes_bytesToHex[OF b])
  have f: "fromSerializedTx enc = Some (t\<lparr>tx_v := None, tx_r := None, tx_s := None\<rparr>)"
    unfolding enc_def by (rule fromSerializedTx_unsigned[OF assms])
  show ?thesis
    unfolding recoverRawTransaction_def enc_def[symmetric]
    by (simp add: v h f Let_def del: append.simps) (simp add: h f)
qed


text \<open>
  C7. A raw transaction that \<open>recoverRawTransaction\<close> accepts decodes to a list of six or of
  nine byte sequences, and both arities are accepted: the nine fields of any well-formed
  transaction and its six unsigned fields alone. With six fields v, r and s are absent. \<open>to\<close>
  is absent exactly when its byte sequence (the fourth) is empty. The parser only decodes: it
  takes no hash and no key recovery, and it accepts a signed transaction whether or not a
  sender can be recovered from its signature.
\<close>

theorem parse_structure:
  "(recoverRawTransaction rawTransaction = Inr res \<longrightarrow>
      (\<exists>flds. rlp_decode (hexToBytes (drop 2 rawTransaction)) = Some (RList (map RBytes flds)) \<and>
         (length flds = 6 \<or> length flds = 9) \<and>
         (length flds = 6 \<longrightarrow> rt_v res = None \<and> rt_r res = None \<and> rt_s res = None) \<and>
         (rt_to res = None \<longleftrightarrow> flds ! 3 = []))) \<and>
   (wellFormedTx t \<longrightarrow>
      (\<exists>res9. recoverRawTransaction (''0x'' @ bytesToHex (serialize t)) = Inr res9 \<and>
         rt_v res9 = map_option (\<lambda>v. ''0x'' @ toString16 v) (tx_v t) \<and>
         rt_r res9 = map_option (\<lambda>r. ''0x'' @ toString16 r) (tx_r t) \<and>
         rt_s res9 = map_option (\<lambda>s. ''0x'' @ toString16 s) (tx_s t) \<and>
         (rt_to res9 = None \<longleftrightarrow> tx_to t = None)) \<and>
      (\<exists>res6. recoverRawTransaction
           (''0x'' @ bytesToHex (rlp_encode (RList (map RBytes (take 6 (raw t)))))) = Inr res6 \<and>
         rt_v res6 = None \<and> rt_r res6 = None \<and> rt_s res6 = None \<and>
         (rt_to res6 = None \<longleftrightarrow> tx_to t = None))) \<and>
   (wellFormedTx t \<and> getSenderAddress env t = None \<longrightarrow>
      (\<exists>res9. recoverRawTransaction (''0x'' @ bytesToHex (serialize t)) = Inr res9))"
proof (intro conjI impI)
  assume ok: "recoverRawTransaction rawTransaction = Inr res"
  from recoverRawTransaction_InrD[OF ok] obtain tx where
    tx: "fromSerializedTx (hexToBytes (drop 2 rawTransaction)) = Some tx"
    and r: "rt_to res = map_option addressToString (tx_to tx)"
      "rt_v res = map_option (\<lambda>v. ''0x'' @ toString16 v) (tx_v tx)"
      "rt_r res = map_option (\<lambda>r. ''0x'' @ toString16 r) (tx_r tx)"
      "rt_s res = map_option (\<lambda>s. ''0x'' @ toString16 s) (tx_s tx)"
    by blast
  from fromSerializedTx_SomeD[OF tx] obtain flds where
    "rlp_decode (hexToBytes (drop 2 rawTransaction)) = Some (RList (map RBytes flds))"
    "length flds = 6 \<or> length flds = 9"
    "length flds = 6 \<longrightarrow> tx_v tx = None \<and> tx_r tx = None \<and> tx_s tx = None"
    "tx_to tx = None \<longleftrightarrow> flds ! 3 = []"
    by auto
  with r show "\<exists>flds. rlp_decode (hexToBytes (drop 2 rawTransaction)) =
         Some (RList (map RBytes flds)) \<and>
         (length flds = 6 \<or> length flds = 9) \<and>
         (length flds = 6 \<longrightarrow> rt_v res = None \<and> rt_r res = None \<and> rt_s res = None) \<and>
         (rt_to res = None \<longleftrightarrow> flds ! 3 = [])"
    by (intro exI[of _ flds]) simp
next
  assume wf: "wellFormedTx t"
  show "\<exists>res9. recoverRawTransaction (''0x'' @ bytesToHex (serialize t)) = Inr res9 \<and>
         rt_v res9 = map_option (\<lambda>v. ''0x'' @ toString16 v) (tx_v t) \<and>
         rt_r res9 = map_option (\<lambda>r. ''0x'' @ toString16 r) (tx_r t) \<and>
         rt_s res9 = map_option (\<lambda>s. ''0x'' @ toString16 s) (tx_s t) \<and>
         (rt_to res9 = None \<longleftrightarrow> tx_to t = None)"
    by (simp only: recoverRawTransaction_serialize[OF wf]) simp
  show "\<exists>res6. recoverRawTransaction
           (''0x'' @ bytesToHex (rlp_encode (RList (map RBytes (take 6 (raw t)))))) = Inr res6 \<and>
         rt_v res6 = None \<and> rt_r res6 = None \<and> rt_s res6 = None \<and>
         (rt_to res6 = None \<longleftrightarrow> tx_to t = None)"
    by (simp only: recoverRawTransaction_unsigned[OF wf]) simp
next
  assume "wellFormedTx t \<and> getSenderAddress env t = None"
  then have wf: "wellFormedTx t" by simp
  show "\<exists>res9. recoverRawTransaction (''0x'' @ bytesToHex (serialize t)) = Inr res9"
    by (simp only: recoverRawTransaction_serialize[OF wf]) simp
qed

lemma unrecoverableTx_wellFormed: "wellFormedTx unrecoverableTx"
  by (simp add: wellFormedTx_def unrecoverableTx_def validFields_def withinMax_def
      MAX_INTEGER_def MAX_UINT64_def)

lemma unrecoverableTx_no_sender: "getSenderAddress env unrecoverableTx = None"
  by (simp add: getSenderAddress_def getSenderPublicKey_def unrecoverableTx_def
      SECP256K1_ORDER_DIV_2_def SECP256K1_ORDER_def Let_def)

theorem parse_structure_witness:
  "wellFormedTx unrecoverableTx \<and>
   getSenderAddress example_collaborators unrecoverableTx = None \<and>
   (\<exists>res. recoverRawTransaction (''0x'' @ bytesToHex (serialize unrecoverableTx)) = Inr res \<and>
      rt_v res = Some ''0x1b'' \<and> rt_r res = Some ''0x1'' \<and>
      rt_s res =
        Some ''0xffffffffffffffffffffffffffffffffffffffffffffffffffffffffffffffff'' \<and>
      rt_to res \<noteq> None) \<and>
   (\<exists>res. recoverRawTransaction
        (''0x'' @ bytesToHex (rlp_encode (RList (map RBytes (take 6 (raw unrecoverableTx)))))) =
        Inr res \<and>
      rt_v res = None \<and> rt_r res = None \<and> rt_s res = None \<and> rt_to res \<noteq> None) \<and>
   (\<exists>flds. rlp_decode (hexToBytes (drop 2 nickFactoryRawTx)) = Some (RList (map RBytes flds)) \<and>
      (length flds = 6 \<or> length flds = 9) \<and> flds ! 3 = [])"
proof -
  have v: "map_option (\<lambda>v. ''0x'' @ toString16 v) (tx_v unrecoverableTx) = Some ''0x1b''"
    "map_option (\<lambda>r. ''0x'' @ toString16 r) (tx_r unrecoverableTx) = Some ''0x1''"
    "map_option (\<lambda>s. ''0x'' @ toString16 s) (tx_s unrecoverableTx) =
      Some ''0xffffffffffffffffffffffffffffffffffffffffffffffffffffffffffffffff''"
    "(tx_to unrecoverableTx = None) = False"
    by (simp_all add: unrecoverableTx_def toString16.simps hexChar_def)
  note P = parse_structure [of nickFactoryRawTx
      "\<lparr>rt_nonce = JInt 0, rt_gasPrice = JInt 100000000000, rt_gasLimit = JInt 100000,
        rt_to = None, rt_value = JInt 0, rt_data = nickFactoryData, rt_v = Some ''0x1b'',
        rt_r = Some ''0x2222222222222222222222222222222222222222222222222222222222222222'',
        rt_s = Some ''0x2222222222222222222222222222222222222222222222222222222222222222''\<rparr>"
      unrecoverableTx example_collaborators]
  note P1 = P[THEN conjunct1, THEN mp, OF nickFactory_parsed]
  note P2 = P[THEN conjunct2, THEN conjunct1, THEN mp, OF unrecoverableTx_wellFormed,
      unfolded v]
  from P1 have a: "\<exists>flds. rlp_decode (hexToBytes (drop 2 nickFactoryRawTx)) =
      Some (RList (map RBytes flds)) \<and> (length flds = 6 \<or> length flds = 9) \<and> flds ! 3 = []"
    by auto
  from P2 have b: "\<exists>res. recoverRawTransaction
      (''0x'' @ bytesToHex (serialize unrecoverableTx)) = Inr res \<and>
      rt_v res = Some ''0x1b'' \<and> rt_r res = Some ''0x1'' \<and>
      rt_s res =
        Some ''0xffffffffffffffffffffffffffffffffffffffffffffffffffffffffffffffff'' \<and>
      rt_to res \<noteq> None"
    by blast
  from P2 have c: "\<exists>res. recoverRawTransaction
        (''0x'' @ bytesToHex (rlp_encode (RList (map RBytes (take 6 (raw unrecoverableTx)))))) =
        Inr res \<and>
      rt_v res = None \<and> rt_r res = None \<and> rt_s res = None \<and> rt_to res \<noteq> None"
    by blast
  from a b c unrecoverableTx_wellFormed unrecoverableTx_no_sender show ?thesis
    by blast
qed

section \<open>Building, then parsing\<close>

lemma of_char_hexChar:
  "d < 16 \<Longrightarrow> (of_char (hexChar d) :: nat) = (if d < 10 then 48 + d else 87 + d)"
  using lt16_cases[of d] by (auto simp: hexChar_def)

lemma hexChar_hexVal: "isLowerHexChar c \<Longrightarrow> hexChar (hexVal c) = c"
proof -
  assume l: "isLowerHexChar c"
  define n where "n = (of_char c :: nat)"
  from l have n: "(48 \<le> n \<and> n \<le> 57) \<or> (97 \<le> n \<and> n \<le> 102)"
    by (simp add: isLowerHexChar_def n_def Let_def)
  then have "hexVal c < 16"
    by (auto simp: hexVal_def n_def[symmetric] Let_def)
  from of_char_hexChar[OF this] n have "(of_char (hexChar (hexVal c)) :: nat) = of_char c"
    by (auto simp: hexVal_def n_def[symmetric] Let_def)
  then show ?thesis by simp
qed

lemma isLowerHexChar_hexVal: "isLowerHexChar c \<Longrightarrow> hexVal c < 16"
  by (auto simp: isLowerHexChar_def hexVal_def Let_def)

lemma bytesToHex_hexToBytes:
  "even (length s) \<Longrightarrow> list_all isLowerHexChar s \<Longrightarrow> bytesToHex (hexToBytes s) = s"
proof (induction s rule: hexToBytes.induct)
  case (1 a b rest)
  then have "hexVal a < 16" "hexVal b < 16" by (simp_all add: isLowerHexChar_hexVal)
  then have "(16 * hexVal a + hexVal b) div 16 = hexVal a"
    "(16 * hexVal a + hexVal b) mod 16 = hexVal b"
    by simp_all
  with 1 show ?case
    by (simp add: bytesToHex_def hexChar_hexVal)
qed (simp_all add: bytesToHex_def)

lemma toString16_hexToNat:
  "s \<noteq> [] \<Longrightarrow> hd s \<noteq> CHR ''0'' \<Longrightarrow> list_all isLowerHexChar s \<Longrightarrow>
   toString16 (hexToNat s) = s \<and> 0 < hexToNat s"
proof (induction s rule: rev_induct)
  case Nil
  then show ?case by simp
next
  case (snoc c s)
  from snoc.prems have c: "isLowerHexChar c" by simp
  then have c16: "hexVal c < 16" by (rule isLowerHexChar_hexVal)
  show ?case
  proof (cases "s = []")
    case True
    with snoc.prems have "c \<noteq> CHR ''0''" by simp
    have "hexVal c \<noteq> 0"
    proof
      assume "hexVal c = 0"
      with hexChar_hexVal[OF c] have "c = hexChar 0" by simp
      with \<open>c \<noteq> CHR ''0''\<close> show False by (simp add: hexChar_def)
    qed
    with True c16 show ?thesis
      by (subst toString16.simps) (simp add: hexToNat_def hexChar_hexVal[OF c])
  next
    case False
    with snoc have IH: "toString16 (hexToNat s) = s" "0 < hexToNat s" by simp_all
    have n: "hexToNat (s @ [c]) = 16 * hexToNat s + hexVal c" by (rule hexToNat_snoc)
    from IH(2) have big: "\<not> 16 * hexToNat s + hexVal c < 16" by simp
    from c16 have dm: "(16 * hexToNat s + hexVal c) div 16 = hexToNat s"
      "(16 * hexToNat s + hexVal c) mod 16 = hexVal c"
      by simp_all
    show ?thesis
      unfolding n
      by (subst toString16.simps) (simp only: big dm IH hexChar_hexVal[OF c] if_False, simp add: IH(2))
  qed
qed

lemma canonicalQuantity_roundtrip:
  "canonicalQuantity s \<Longrightarrow> ''0x'' @ toString16 (hexToBigInt s) = s"
proof -
  assume c: "canonicalQuantity s"
  then have s: "s = ''0x'' @ drop 2 s"
    by (metis append_take_drop_id canonicalQuantity_def)
  from c have "toString16 (hexToNat (drop 2 s)) = drop 2 s"
    by (simp add: canonicalQuantity_def toString16_hexToNat)
  moreover have "hexToBigInt s = hexToNat (drop 2 s)"
    by (simp add: hexToBigInt_def bigInt_padToEven)
  ultimately show ?thesis using s by simp
qed

lemma canonicalData_roundtrip:
  "canonicalData s \<Longrightarrow> ''0x'' @ bytesToHex (hexToBytes (padToEven (drop 2 s))) = s"
proof -
  assume c: "canonicalData s"
  then have s: "s = ''0x'' @ drop 2 s"
    by (metis append_take_drop_id canonicalData_def)
  from c have "2 \<le> length s" by (cases s; cases "tl s") (auto simp: canonicalData_def)
  with c have e: "even (length (drop 2 s))" by (simp add: canonicalData_def)
  then have "padToEven (drop 2 s) = drop 2 s" by (simp add: padToEven_def)
  moreover from c e have "bytesToHex (hexToBytes (drop 2 s)) = drop 2 s"
    by (simp add: canonicalData_def bytesToHex_hexToBytes)
  ultimately show ?thesis using s by simp
qed

lemma hardcoded_canonical:
  "canonicalQuantity HARDCODED_R" "canonicalQuantity HARDCODED_S" "canonicalQuantity HARDCODED_V"
  by (simp_all add: canonicalQuantity_def isLowerHexChar_def HARDCODED_R_def HARDCODED_S_def
      HARDCODED_V_def)


text \<open>
  C1 (amended). For every config that \<open>genRawTransaction\<close> accepts, parsing the rawTx it
  returns succeeds and recovers nonce 0, the v and the s of the result as they are, gasPrice,
  gasLimit and value as JavaScript numbers (the nearest double of the integer used, so the
  exact integer up to \<open>2^53\<close>), the data as lowercase hex of the same bytes (the data as
  supplied when it is lowercase with an even number of digits), and r as the lowercase hex of
  the same integer without leading zeros (the r of the result when that is the default or is
  spelled so). The bound on the length of the data holds for every JavaScript string.
\<close>

theorem round_trip:
  assumes ok: "genRawTransaction env c = Inr res"
    and len: "length (the (tc_data c)) < 2 ^ 53"
  shows "\<exists>rec. recoverRawTransaction (tr_rawTx res) = Inr rec \<and>
    rt_nonce rec = JInt 0 \<and>
    rt_gasPrice rec = Number (numericValue (the (tc_gasPrice c))) \<and>
    rt_gasLimit rec = Number (numericValue (the (tc_gasLimit c))) \<and>
    rt_value rec = Number (numericValue (the (tc_value c))) \<and>
    (numericValue (the (tc_gasPrice c)) \<le> 2 ^ 53 \<longrightarrow>
       rt_gasPrice rec = JInt (int (numericValue (the (tc_gasPrice c))))) \<and>
    (numericValue (the (tc_gasLimit c)) \<le> 2 ^ 53 \<longrightarrow>
       rt_gasLimit rec = JInt (int (numericValue (the (tc_gasLimit c))))) \<and>
    (numericValue (the (tc_value c)) \<le> 2 ^ 53 \<longrightarrow>
       rt_value rec = JInt (int (numericValue (the (tc_value c))))) \<and>
    rt_data rec = ''0x'' @ bytesToHex (hexToBytes (padToEven (drop 2 (the (tc_data c))))) \<and>
    (canonicalData (the (tc_data c)) \<longrightarrow> rt_data rec = the (tc_data c)) \<and>
    rt_v rec = Some (tr_v res) \<and>
    rt_r rec = Some (''0x'' @ toString16 (hexToBigInt (tr_r res))) \<and>
    (\<not> truthy_string (tc_r c) \<or> canonicalQuantity (tr_r res) \<longrightarrow> rt_r rec = Some (tr_r res)) \<and>
    rt_s rec = Some (tr_s res)"
proof -
  from genRawTransaction_tx[OF ok] len obtain tx where
    wf: "wellFormedTx tx" and raw: "tr_rawTx res = ''0x'' @ bytesToHex (serialize tx)"
    and f: "tx_nonce tx = 0" "tx_gasPrice tx = numericValue (the (tc_gasPrice c))"
      "tx_gasLimit tx = numericValue (the (tc_gasLimit c))"
      "tx_value tx = numericValue (the (tc_value c))"
      "tx_data tx = hexToBytes (padToEven (drop 2 (the (tc_data c))))"
      "tx_v tx = Some 27" "tx_r tx = Some (hexToBigInt (tr_r res))"
      "tx_s tx = Some (hexToBigInt (tr_s res))"
    by auto
  from genRawTransaction_InrD[OF ok] have r: "tr_s res = HARDCODED_S" "tr_v res = HARDCODED_V"
    "\<not> truthy_string (tc_r c) \<longrightarrow> tr_r res = HARDCODED_R"
    by auto
  define rec where "rec =
    \<lparr>rt_nonce = Number (tx_nonce tx), rt_gasPrice = Number (tx_gasPrice tx),
     rt_gasLimit = Number (tx_gasLimit tx),
     rt_to = map_option addressToString (tx_to tx),
     rt_value = Number (tx_value tx),
     rt_data = ''0x'' @ bytesToHex (tx_data tx),
     rt_v = map_option (\<lambda>v. ''0x'' @ toString16 v) (tx_v tx),
     rt_r = map_option (\<lambda>r. ''0x'' @ toString16 r) (tx_r tx),
     rt_s = map_option (\<lambda>s. ''0x'' @ toString16 s) (tx_s tx)\<rparr>"
  have p: "recoverRawTransaction (tr_rawTx res) = Inr rec"
    unfolding raw rec_def by (rule recoverRawTransaction_serialize[OF wf])
  have n: "rt_nonce rec = JInt 0" by (simp add: rec_def f Number_def)
  have g: "rt_gasPrice rec = Number (numericValue (the (tc_gasPrice c)))"
    "rt_gasLimit rec = Number (numericValue (the (tc_gasLimit c)))"
    "rt_value rec = Number (numericValue (the (tc_value c)))"
    by (simp_all add: rec_def f)
  have d: "rt_data rec = ''0x'' @ bytesToHex (hexToBytes (padToEven (drop 2 (the (tc_data c)))))"
    by (simp add: rec_def f)
  have v: "rt_v rec = Some (tr_v res)"
    by (simp add: rec_def f r HARDCODED_V_def toString16.simps hexChar_def)
  have rr: "rt_r rec = Some (''0x'' @ toString16 (hexToBigInt (tr_r res)))"
    by (simp add: rec_def f)
  have s: "rt_s rec = Some (tr_s res)"
    using canonicalQuantity_roundtrip[OF hardcoded_canonical(2)]
    by (simp add: rec_def f r)
  have rc: "rt_r rec = Some (tr_r res)" if "\<not> truthy_string (tc_r c) \<or> canonicalQuantity (tr_r res)"
  proof -
    from that r(3) hardcoded_canonical(1) have "canonicalQuantity (tr_r res)" by auto
    from canonicalQuantity_roundtrip[OF this] rr show ?thesis by simp
  qed
  have dc: "rt_data rec = the (tc_data c)" if "canonicalData (the (tc_data c))"
    using canonicalData_roundtrip[OF that] d by simp
  from p n g d v rr s rc dc show ?thesis
    by (intro exI[of _ rec]) (simp add: Number_exact)
qed


theorem round_trip_witness:
  "genRawTransaction example_collaborators validConfig = Inr
     \<lparr>tr_rawTx = ''0xf86680843b9aca00830186a094742d35cc6634c0532925a3b844bc454e4438f44e808212341ba01212121212121212121212121212121212121212121212121212121212121212a01212121212121212121212121212121212121212121212121212121212121212'',
      tr_senderAddress = ''0x0000000000000000000000000000000000000000'',
      tr_upfrontCost = JInt 100000000000000,
      tr_r = ''0x1212121212121212121212121212121212121212121212121212121212121212'',
      tr_s = ''0x1212121212121212121212121212121212121212121212121212121212121212'',
      tr_v = ''0x1b''\<rparr> \<and>
   length (the (tc_data validConfig)) < 2 ^ 53 \<and>
   (\<exists>rec. recoverRawTransaction ''0xf86680843b9aca00830186a094742d35cc6634c0532925a3b844bc454e4438f44e808212341ba01212121212121212121212121212121212121212121212121212121212121212a01212121212121212121212121212121212121212121212121212121212121212'' = Inr rec \<and>
      rt_nonce rec = JInt 0 \<and> rt_gasPrice rec = JInt 1000000000 \<and>
      rt_gasLimit rec = JInt 100000 \<and> rt_value rec = JInt 0 \<and> rt_data rec = ''0x1234'' \<and>
      rt_v rec = Some ''0x1b'' \<and>
      rt_r rec = Some ''0x1212121212121212121212121212121212121212121212121212121212121212'' \<and>
      rt_s rec = Some ''0x1212121212121212121212121212121212121212121212121212121212121212'')"
proof -
  have len: "length (the (tc_data validConfig)) < 2 ^ 53"
    by (simp add: validConfig_def)
  have nv: "numericValue (the (tc_gasPrice validConfig)) = 1000000000"
    "numericValue (the (tc_gasLimit validConfig)) = 100000"
    "numericValue (the (tc_value validConfig)) = 0"
    using numericValue_int[of 1000000000] numericValue_int[of 100000] numericValue_int[of 0]
    by (simp_all add: validConfig_def)
  have cd: "canonicalData ''0x1234''" "the (tc_data validConfig) = ''0x1234''"
    "\<not> truthy_string (tc_r validConfig)"
    by (simp_all add: validConfig_def canonicalData_def isLowerHexChar_def truthy_string_def)
  have nm: "Number 0 = JInt 0" "Number 1000000000 = JInt 1000000000"
    "Number 100000 = JInt 100000"
    by (simp_all add: Number_def)
  from round_trip[OF validConfig_result len] obtain rec where
    "recoverRawTransaction ''0xf86680843b9aca00830186a094742d35cc6634c0532925a3b844bc454e4438f44e808212341ba01212121212121212121212121212121212121212121212121212121212121212a01212121212121212121212121212121212121212121212121212121212121212'' = Inr rec"
    "rt_nonce rec = JInt 0" "rt_gasPrice rec = JInt 1000000000"
    "rt_gasLimit rec = JInt 100000" "rt_value rec = JInt 0" "rt_data rec = ''0x1234''"
    "rt_v rec = Some ''0x1b''"
    "rt_r rec = Some ''0x1212121212121212121212121212121212121212121212121212121212121212''"
    "rt_s rec = Some ''0x1212121212121212121212121212121212121212121212121212121212121212''"
    unfolding nv by (auto simp: cd nm)
  with validConfig_result len show ?thesis by blast
qed

lemma oneEtherAndOneWei_parsed:
  "recoverRawTransaction ''0xf86e80843b9aca00830186a094742d35cc6634c0532925a3b844bc454e4438f44e880de0b6b3a76400018212341ba01212121212121212121212121212121212121212121212121212121212121212a01212121212121212121212121212121212121212121212121212121212121212'' =
   Inr \<lparr>rt_nonce = JInt 0, rt_gasPrice = JInt 1000000000, rt_gasLimit = JInt 100000,
        rt_to = Some ''0x742d35cc6634c0532925a3b844bc454e4438f44e'',
        rt_value = JInt 1000000000000000000, rt_data = ''0x1234'', rt_v = Some ''0x1b'',
        rt_r = Some ''0x1212121212121212121212121212121212121212121212121212121212121212'',
        rt_s = Some ''0x1212121212121212121212121212121212121212121212121212121212121212''\<rparr>"
  by (simp add: eval_parse)

text \<open>
  C1 as stated fails: built with a value of one ether and one wei
  (1000000000000000001), the transaction parses to the value 1000000000000000000.
\<close>

theorem round_trip_value_rounded:
  "\<exists>res rec. genRawTransaction example_collaborators oneEtherAndOneWei = Inr res \<and>
     recoverRawTransaction (tr_rawTx res) = Inr rec \<and>
     numericValue (the (tc_value oneEtherAndOneWei)) = 1000000000000000001 \<and>
     rt_value rec = JInt 1000000000000000000"
proof -
  have "numericValue (StringV ''0xde0b6b3a7640001'') = 1000000000000000001"
    by (simp add: numericValue_def toHexInput_def hexToBigInt_def eval_build)
  then show ?thesis
    by (simp add: oneEtherAndOneWei_result oneEtherAndOneWei_parsed)
      (simp add: oneEtherAndOneWei_def)
qed

end
